theory Spec2Isabelle
  imports Complex_Main "HOL-Library.Log_Nat"
begin

section \<open>JavaScript numbers\<close>

text \<open>
  The strategy engine of \<^verbatim>\<open>src/lib/strategy.ts\<close> computes with JavaScript numbers, the
  binary64 values of IEEE 754. A number is modelled as NaN, an infinity, or a finite
  value that carries its real value. A value \<open>Finite x\<close> stands for a number of the engine
  when \<open>x\<close> is a double, that is, a real that binary64 represents. The sign of zero is
  not modelled: both zeros are \<open>Finite 0\<close>. They compare equal, and the engine never
  divides by a zero (its divisors are a positive period and a price guarded by
  \<^verbatim>\<open>latestPrice > 0\<close>).
\<close>

datatype number = NaN | NegInfinity | Finite real | PosInfinity

text \<open>The infinity whose sign is that of a product or quotient: positive when \<open>pos\<close>.\<close>

definition signed_infinity :: "bool \<Rightarrow> number" where
  "signed_infinity pos = (if pos then PosInfinity else NegInfinity)"

subsection \<open>Rounding to binary64\<close>

text \<open>
  Every arithmetic result is the exact result rounded to the nearest double, a tie
  going to the double with an even significand. \<open>round_half_even\<close> is that rounding to
  an integer. \<open>binary_exponent a\<close> is the exponent \<open>e\<close> with \<open>2^e \<le> a < 2^(e+1)\<close> of a
  positive \<open>a\<close>. The doubles near \<open>a\<close> are the multiples of \<open>2^(e-52)\<close>, or of \<open>2^-1074\<close>
  in the subnormal range below \<open>2^-1022\<close>; \<open>double_magnitude a\<close> is the nearest of them.
  A magnitude that rounds to \<open>2^1024\<close> or more overflows to the infinity of its sign.
\<close>

definition round_half_even :: "real \<Rightarrow> int" where
  "round_half_even x =
     (let n = \<lfloor>x\<rfloor>; f = x - of_int n
      in if f < 1 / 2 then n else if 1 / 2 < f then n + 1 else if even n then n else n + 1)"

definition binary_exponent :: "real \<Rightarrow> int" where
  "binary_exponent a = (if 1 \<le> a then bitlen \<lfloor>a\<rfloor> - 1 else - bitlen (\<lceil>1 / a\<rceil> - 1))"

definition double_magnitude :: "real \<Rightarrow> real" where
  "double_magnitude a =
     (if a = 0 then 0
      else let q = max (binary_exponent a) (- 1022) - 52
           in of_int (round_half_even (a / 2 powi q)) * 2 powi q)"

definition overflow_threshold :: real where
  "overflow_threshold = 2 ^ 1024"

definition round64 :: "real \<Rightarrow> number" where
  "round64 x =
     (let r = double_magnitude \<bar>x\<bar>
      in if overflow_threshold \<le> r then signed_infinity (0 < x) else Finite (sgn x * r))"

text \<open>A real is a double when rounding leaves it as it is.\<close>

definition is_double :: "real \<Rightarrow> bool" where
  "is_double x = (round64 x = Finite x)"

text \<open>
  A decimal literal of the source, such as \<^verbatim>\<open>0.99\<close>, denotes the double nearest to its
  decimal value.
\<close>

definition js_literal :: "real \<Rightarrow> number" where
  "js_literal r = round64 r"

subsection \<open>Arithmetic and comparison\<close>

text \<open>
  The operators \<open>+\<close>, \<open>*\<close> and \<open>/\<close>. A NaN operand gives NaN; \<open>Infinity - Infinity\<close>,
  \<open>0 * Infinity\<close>, \<open>Infinity / Infinity\<close> and \<open>0 / 0\<close> are NaN; on finite operands the
  exact result is rounded to binary64.
\<close>

fun js_add :: "number \<Rightarrow> number \<Rightarrow> number" where
  "js_add NaN _ = NaN"
| "js_add _ NaN = NaN"
| "js_add PosInfinity NegInfinity = NaN"
| "js_add NegInfinity PosInfinity = NaN"
| "js_add PosInfinity _ = PosInfinity"
| "js_add _ PosInfinity = PosInfinity"
| "js_add NegInfinity _ = NegInfinity"
| "js_add _ NegInfinity = NegInfinity"
| "js_add (Finite a) (Finite b) = round64 (a + b)"

fun js_mul :: "number \<Rightarrow> number \<Rightarrow> number" where
  "js_mul NaN _ = NaN"
| "js_mul _ NaN = NaN"
| "js_mul (Finite a) (Finite b) = round64 (a * b)"
| "js_mul (Finite a) PosInfinity = (if a = 0 then NaN else signed_infinity (0 < a))"
| "js_mul (Finite a) NegInfinity = (if a = 0 then NaN else signed_infinity (a < 0))"
| "js_mul PosInfinity (Finite b) = (if b = 0 then NaN else signed_infinity (0 < b))"
| "js_mul NegInfinity (Finite b) = (if b = 0 then NaN else signed_infinity (b < 0))"
| "js_mul PosInfinity PosInfinity = PosInfinity"
| "js_mul NegInfinity NegInfinity = PosInfinity"
| "js_mul PosInfinity NegInfinity = NegInfinity"
| "js_mul NegInfinity PosInfinity = NegInfinity"

fun js_div :: "number \<Rightarrow> number \<Rightarrow> number" where
  "js_div NaN _ = NaN"
| "js_div _ NaN = NaN"
| "js_div (Finite a) (Finite b) =
     (if b = 0 then (if a = 0 then NaN else signed_infinity (0 < a)) else round64 (a / b))"
| "js_div (Finite a) PosInfinity = Finite 0"
| "js_div (Finite a) NegInfinity = Finite 0"
| "js_div PosInfinity (Finite b) = signed_infinity (0 \<le> b)"
| "js_div NegInfinity (Finite b) = signed_infinity (b < 0)"
| "js_div PosInfinity PosInfinity = NaN"
| "js_div PosInfinity NegInfinity = NaN"
| "js_div NegInfinity PosInfinity = NaN"
| "js_div NegInfinity NegInfinity = NaN"

text \<open>The relational operators \<open><\<close>, \<open><=\<close>, \<open>>\<close>, \<open>>=\<close>: false as soon as an operand is NaN.\<close>

fun js_lt :: "number \<Rightarrow> number \<Rightarrow> bool" where
  "js_lt NaN _ = False"
| "js_lt _ NaN = False"
| "js_lt _ NegInfinity = False"
| "js_lt NegInfinity _ = True"
| "js_lt PosInfinity _ = False"
| "js_lt _ PosInfinity = True"
| "js_lt (Finite a) (Finite b) = (a < b)"

fun js_le :: "number \<Rightarrow> number \<Rightarrow> bool" where
  "js_le NaN _ = False"
| "js_le _ NaN = False"
| "js_le NegInfinity _ = True"
| "js_le _ NegInfinity = False"
| "js_le _ PosInfinity = True"
| "js_le PosInfinity _ = False"
| "js_le (Finite a) (Finite b) = (a \<le> b)"

definition js_gt :: "number \<Rightarrow> number \<Rightarrow> bool" where
  "js_gt a b = js_lt b a"

definition js_ge :: "number \<Rightarrow> number \<Rightarrow> bool" where
  "js_ge a b = js_le b a"

text \<open>
  \<^verbatim>\<open>Math.min(...)\<close> and \<^verbatim>\<open>Math.max(...)\<close> on any number of arguments: they start from
  \<open>+Infinity\<close> (\<open>-Infinity\<close>), and a NaN argument makes the result NaN.
\<close>

definition min_step :: "number \<Rightarrow> number \<Rightarrow> number" where
  "min_step lowest x = (if lowest = NaN \<or> x = NaN then NaN else if js_lt x lowest then x else lowest)"

definition max_step :: "number \<Rightarrow> number \<Rightarrow> number" where
  "max_step highest x = (if highest = NaN \<or> x = NaN then NaN else if js_gt x highest then x else highest)"

definition Math_min :: "number list \<Rightarrow> number" where
  "Math_min xs = foldl min_step PosInfinity xs"

definition Math_max :: "number list \<Rightarrow> number" where
  "Math_max xs = foldl max_step NegInfinity xs"

text \<open>
  \<^verbatim>\<open>Number.isFinite\<close> is true of the finite numbers and false of everything else: of
  NaN, of the infinities, and of a value that is not a number, as \<open>Finite x\<close> is for an
  \<open>x\<close> that binary64 does not represent.
\<close>

fun Number_isFinite :: "number \<Rightarrow> bool" where
  "Number_isFinite (Finite x) = is_double x"
| "Number_isFinite _ = False"

text \<open>
  \<^verbatim>\<open>Number(x.toFixed(d))\<close>. \<^verbatim>\<open>toFixed\<close> prints NaN and the infinities by name, a value
  of magnitude \<open>10^21\<close> or more as \<^verbatim>\<open>String(x)\<close>, and any other value with \<open>d\<close> decimals:
  the sign, then the integer \<open>n\<close> nearest to \<open>|x| * 10^d\<close> (the larger one on a tie), where
  \<open>x\<close> is the exact value of the double. \<open>toFixed_value d x\<close> is the value of that text
  (for a magnitude of \<open>10^21\<close> or more the text reads back as \<open>x\<close> itself).
  \<^verbatim>\<open>Number\<close> reads the text back as the double nearest to its value.
\<close>

definition toFixed_value :: "nat \<Rightarrow> real \<Rightarrow> real" where
  "toFixed_value d x =
     (if 10 ^ 21 \<le> \<bar>x\<bar> then x
      else sgn x * (of_int \<lfloor>\<bar>x\<bar> * 10 ^ d + 1 / 2\<rfloor> / 10 ^ d))"

fun Number_toFixed :: "nat \<Rightarrow> number \<Rightarrow> number" where
  "Number_toFixed d (Finite x) = round64 (toFixed_value d x)"
| "Number_toFixed d x = x"

section \<open>Arrays\<close>

text \<open>
  \<^verbatim>\<open>xs.slice(start, end)\<close>: a negative bound counts from the end, and both bounds are
  clamped to the array. \<^verbatim>\<open>xs.slice(start)\<close> is \<open>js_slice xs start (length xs)\<close>.
\<close>

definition js_slice :: "'a list \<Rightarrow> int \<Rightarrow> int \<Rightarrow> 'a list" where
  "js_slice xs start fin =
     (let len = int (length xs);
          k = (if start < 0 then max (len + start) 0 else min start len);
          final = (if fin < 0 then max (len + fin) 0 else min fin len)
      in take (nat (final - k)) (drop (nat k) xs))"

text \<open>
  \<^verbatim>\<open>xs[i]\<close> on an array of \<^verbatim>\<open>number | null\<close>, where \<open>None\<close> is \<^verbatim>\<open>null\<close>: an index out of
  range reads \<^verbatim>\<open>undefined\<close>. The engine only tests these reads with \<^verbatim>\<open>!= null\<close> or
  passes them through \<^verbatim>\<open>?? null\<close>, which do not tell \<^verbatim>\<open>undefined\<close> from \<^verbatim>\<open>null\<close>, so
  both are \<open>None\<close>.
\<close>

definition js_index :: "'a option list \<Rightarrow> int \<Rightarrow> 'a option" where
  "js_index xs i = (if 0 \<le> i \<and> i < int (length xs) then xs ! nat i else None)"

section \<open>The moving average calculator\<close>

datatype error = InvalidPeriod | NoData

text \<open>
  \<^verbatim>\<open>simpleMovingAverage\<close> (strategy.ts, lines 35 to 50). The period is an integer, as
  the configuration schema of the route requires (\<^verbatim>\<open>z.coerce.number().int()\<close>). The
  \<^verbatim>\<open>for\<close> loop is \<open>sma_loop\<close>, on the index \<open>i\<close> and the array built so far; the two
  throws of the engine are the values \<open>InvalidPeriod\<close> and \<open>NoData\<close>.
\<close>

function sma_loop :: "number list \<Rightarrow> int \<Rightarrow> nat \<Rightarrow> number option list \<Rightarrow> number option list" where
  "sma_loop vs period i result =
     (if i < length vs then
        (if int i + 1 < period then sma_loop vs period (i + 1) (result @ [None])
         else
           (let window = js_slice vs (int i + 1 - period) (int i + 1);
                sum = foldl js_add (Finite 0) window
            in sma_loop vs period (i + 1) (result @ [Some (js_div sum (Finite (of_int period)))])))
      else result)"
  by pat_completeness auto
termination
  by (relation "measure (\<lambda>(vs, period, i, result). length vs - i)") auto

declare sma_loop.simps [simp del]

definition simpleMovingAverage :: "number list \<Rightarrow> int \<Rightarrow> error + number option list" where
  "simpleMovingAverage vs period =
     (if period \<le> 0 then Inl InvalidPeriod else Inr (sma_loop vs period 0 []))"

text \<open>
  The entry that one iteration of the loop of \<^verbatim>\<open>simpleMovingAverage\<close> pushes at index
  \<open>i\<close>: the body of the loop, as a function of the index.
\<close>

definition sma_entry :: "number list \<Rightarrow> int \<Rightarrow> nat \<Rightarrow> number option" where
  "sma_entry vs period i =
     (if int i + 1 < period then None
      else Some (js_div (foldl js_add (Finite 0) (js_slice vs (int i + 1 - period) (int i + 1)))
                        (Finite (of_int period))))"

section \<open>The data model\<close>

text \<open>
  The types of strategy.ts and ccxtClient.ts. A field that may be absent
  (\<^verbatim>\<open>stopLoss?: number\<close>) is an option, and so is an entry \<^verbatim>\<open>number | null\<close> of a
  moving-average series. The fields of an order that share a name with a field of the
  computation, or with a constant of HOL, carry the prefix \<open>order_\<close>. The side of an
  order is the action string copied over, so it has the type of the action.
\<close>

record OHLCVRecord =
  timestamp :: number
  "open" :: number
  high :: number
  low :: number
  close :: number
  volume :: number

datatype StrategyMode = Paper | Live

record StrategyConfig =
  symbol :: string
  timeframe :: string
  fastLength :: int
  slowLength :: int
  capital :: number
  riskPercent :: number
  mode :: StrategyMode

datatype Action = Buy | Sell | Hold

datatype OrderType = Market

text \<open>
  The reason is one of five message templates. The two crossover templates interpolate
  the current fast and slow averages (printed with two decimals); the value keeps the
  numbers themselves.
  \<^item> \<open>NoCrossover\<close>: \<^verbatim>\<open>No actionable crossover detected.\<close>
  \<^item> \<open>BullishCrossover f s\<close>: \<^verbatim>\<open>Bullish crossover detected (fast MA f > slow MA s).\<close>
  \<^item> \<open>BearishCrossover f s\<close>: \<^verbatim>\<open>Bearish crossover detected (fast MA f < slow MA s).\<close>
  \<^item> \<open>ContinuationAbove\<close>: \<^verbatim>\<open>Fast MA remains above slow MA (trend-following continuation).\<close>
  \<^item> \<open>ContinuationBelow\<close>: \<^verbatim>\<open>Fast MA remains below slow MA (trend-following continuation).\<close>
\<close>

datatype Reason =
    NoCrossover
  | BullishCrossover number number
  | BearishCrossover number number
  | ContinuationAbove
  | ContinuationBelow

record StrategyOrder =
  side :: Action
  order_type :: OrderType
  order_size :: number
  price :: number
  order_stopLoss :: "number option"
  order_takeProfit :: "number option"

record StrategyComputation =
  action :: Action
  reason :: Reason
  latestPrice :: number
  positionSize :: number
  stopLoss :: "number option"
  takeProfit :: "number option"
  fastMA :: "number option list"
  slowMA :: "number option list"

section \<open>The signal evaluator, the position sizer and the order builder\<close>

text \<open>
  The decision of \<^verbatim>\<open>evaluateStrategy\<close> (lines 71 to 98): \<^verbatim>\<open>action\<close> and \<^verbatim>\<open>reason\<close> start
  as hold and are reassigned inside \<^verbatim>\<open>if (lastFast != null && lastSlow != null)\<close>.
\<close>

definition signal ::
  "number option \<Rightarrow> number option \<Rightarrow> number option \<Rightarrow> number option \<Rightarrow> Action \<times> Reason" where
  "signal lastFast lastSlow prevFast prevSlow =
     (if lastFast \<noteq> None \<and> lastSlow \<noteq> None then
        (if prevFast \<noteq> None \<and> prevSlow \<noteq> None \<and>
            js_le (the prevFast) (the prevSlow) \<and> js_gt (the lastFast) (the lastSlow)
         then (Buy, BullishCrossover (the lastFast) (the lastSlow))
         else if prevFast \<noteq> None \<and> prevSlow \<noteq> None \<and>
            js_ge (the prevFast) (the prevSlow) \<and> js_lt (the lastFast) (the lastSlow)
         then (Sell, BearishCrossover (the lastFast) (the lastSlow))
         else if js_gt (the lastFast) (the lastSlow) then (Buy, ContinuationAbove)
         else if js_lt (the lastFast) (the lastSlow) then (Sell, ContinuationBelow)
         else (Hold, NoCrossover))
      else (Hold, NoCrossover))"

text \<open>\<^verbatim>\<open>evaluateStrategy\<close> (lines 52 to 132). A primed name is the local of that name.\<close>

definition evaluateStrategy :: "OHLCVRecord list \<Rightarrow> StrategyConfig \<Rightarrow> error + StrategyComputation" where
  "evaluateStrategy candles config =
     (if length candles = 0 then Inl NoData
      else
        (let closes = map close candles in
         case simpleMovingAverage closes (fastLength config) of
           Inl e \<Rightarrow> Inl e
         | Inr fastMA' \<Rightarrow>
        (case simpleMovingAverage closes (slowLength config) of
           Inl e \<Rightarrow> Inl e
         | Inr slowMA' \<Rightarrow>
        (let lastIndex = int (length closes) - 1;
             lastFast = js_index fastMA' lastIndex;
             lastSlow = js_index slowMA' lastIndex;
             prevFast = js_index fastMA' (lastIndex - 1);
             prevSlow = js_index slowMA' (lastIndex - 1);
             latestPrice' = closes ! nat lastIndex;
             decision = signal lastFast lastSlow prevFast prevSlow;
             action' = fst decision;
             reason' = snd decision;
             riskFraction =
               Math_max [Math_min [js_div (riskPercent config) (Finite 100), Finite 1], Finite 0];
             capitalToUse = js_mul (capital config) riskFraction;
             positionSize' =
               (if js_gt latestPrice' (Finite 0)
                then Number_toFixed 6 (js_div capitalToUse latestPrice') else Finite 0);
             recentLow =
               Math_min (map low (js_slice candles (- slowLength config) (int (length candles))));
             recentHigh =
               Math_max (map high (js_slice candles (- slowLength config) (int (length candles))));
             stopLoss' =
               (if action' = Buy then Number_toFixed 2 (js_mul recentLow (js_literal (99 / 100)))
                else Number_toFixed 2 (js_mul recentHigh (js_literal (101 / 100))));
             takeProfit' =
               (if action' = Buy then Number_toFixed 2 (js_mul latestPrice' (js_literal (103 / 100)))
                else Number_toFixed 2 (js_mul latestPrice' (js_literal (97 / 100))))
         in Inr \<lparr>action = action', reason = reason', latestPrice = latestPrice',
                 positionSize = positionSize',
                 stopLoss = (if Number_isFinite stopLoss' then Some stopLoss' else None),
                 takeProfit = (if Number_isFinite takeProfit' then Some takeProfit' else None),
                 fastMA = fastMA', slowMA = slowMA'\<rparr>))))"

text \<open>\<^verbatim>\<open>buildOrder\<close> (lines 134 to 149).\<close>

definition buildOrder :: "StrategyComputation \<Rightarrow> StrategyOrder option" where
  "buildOrder computation =
     (if action computation = Hold \<or> js_le (positionSize computation) (Finite 0) then None
      else Some \<lparr>side = action computation, order_type = Market,
                  order_size = positionSize computation, price = latestPrice computation,
                  order_stopLoss = stopLoss computation,
                  order_takeProfit = takeProfit computation\<rparr>)"

section \<open>The specification's notions\<close>

text \<open>
  The definitions of this section are written from the words of the specification, not
  from the code; the theorems below compare the engine with them.
\<close>

text \<open>
  The mean of a window in binary64: the sum of the values, taken from the left starting
  at 0, over their count, every result rounded. The specification's arithmetic mean of
  reals \<open>rs\<close> is \<open>sum_list rs / real (length rs)\<close>. \<open>exact_sums acc rs\<close> says that adding
  the values \<open>rs\<close> to \<open>acc\<close> one by one from the left never rounds: every partial sum is
  a double.
\<close>

definition window_mean :: "number list \<Rightarrow> number" where
  "window_mean ws = js_div (foldl js_add (Finite 0) ws) (Finite (real (length ws)))"

fun exact_sums :: "real \<Rightarrow> real list \<Rightarrow> bool" where
  "exact_sums acc [] = True"
| "exact_sums acc (r # rs) = (is_double (acc + r) \<and> exact_sums (acc + r) rs)"

text \<open>
  The decision policy of the signal evaluator as the specification words it, five
  cases in priority order. A comparison with an undefined average does not hold.
\<close>

definition defined_gt :: "number option \<Rightarrow> number option \<Rightarrow> bool" where
  "defined_gt a b = (case a of None \<Rightarrow> False | Some x \<Rightarrow> (case b of None \<Rightarrow> False | Some y \<Rightarrow> js_gt x y))"

definition defined_lt :: "number option \<Rightarrow> number option \<Rightarrow> bool" where
  "defined_lt a b = (case a of None \<Rightarrow> False | Some x \<Rightarrow> (case b of None \<Rightarrow> False | Some y \<Rightarrow> js_lt x y))"

definition defined_le :: "number option \<Rightarrow> number option \<Rightarrow> bool" where
  "defined_le a b = (case a of None \<Rightarrow> False | Some x \<Rightarrow> (case b of None \<Rightarrow> False | Some y \<Rightarrow> js_le x y))"

definition defined_ge :: "number option \<Rightarrow> number option \<Rightarrow> bool" where
  "defined_ge a b = (case a of None \<Rightarrow> False | Some x \<Rightarrow> (case b of None \<Rightarrow> False | Some y \<Rightarrow> js_ge x y))"

definition all_defined :: "number option list \<Rightarrow> bool" where
  "all_defined xs = list_all (\<lambda>x. x \<noteq> None) xs"

definition crossover_policy ::
  "number option \<Rightarrow> number option \<Rightarrow> number option \<Rightarrow> number option \<Rightarrow> Action \<times> Reason" where
  "crossover_policy curFast curSlow prevFast prevSlow =
     (if all_defined [curFast, curSlow, prevFast, prevSlow] \<and>
         defined_le prevFast prevSlow \<and> defined_gt curFast curSlow
      then (Buy, BullishCrossover (the curFast) (the curSlow))
      else if all_defined [curFast, curSlow, prevFast, prevSlow] \<and>
         defined_ge prevFast prevSlow \<and> defined_lt curFast curSlow
      then (Sell, BearishCrossover (the curFast) (the curSlow))
      else if defined_gt curFast curSlow then (Buy, ContinuationAbove)
      else if defined_lt curFast curSlow then (Sell, ContinuationBelow)
      else (Hold, NoCrossover))"

text \<open>\<open>clamp x lo hi\<close>: \<open>x\<close> brought into the interval from \<open>lo\<close> to \<open>hi\<close>.\<close>

definition clamp :: "number \<Rightarrow> number \<Rightarrow> number \<Rightarrow> number" where
  "clamp x lo hi = (if js_lt x lo then lo else if js_gt x hi then hi else x)"

text \<open>
  The position size of the specification: capital times the clamped risk fraction over
  the latest price, rounded to six decimals, and 0 when the price is not positive.
\<close>

definition position_size_rule :: "number \<Rightarrow> number \<Rightarrow> number \<Rightarrow> number" where
  "position_size_rule cap risk p =
     (if js_gt p (Finite 0)
      then Number_toFixed 6
             (js_div (js_mul cap (clamp (js_div risk (Finite 100)) (Finite 0) (Finite 1))) p)
      else Finite 0)"

text \<open>
  \<open>rounded_to d y z\<close>: the number \<open>z\<close> is \<open>y\<close> rounded to \<open>d\<close> decimals. A finite \<open>y\<close> below
  \<open>10^21\<close> in magnitude gives the double nearest to a multiple of \<open>10^-d\<close> that is at
  most half a unit of the last decimal away from \<open>y\<close>; any other \<open>y\<close> stays as it is.
\<close>

definition rounded_to :: "nat \<Rightarrow> number \<Rightarrow> number \<Rightarrow> bool" where
  "rounded_to d y z =
     (case y of
        Finite x \<Rightarrow>
          (if \<bar>x\<bar> < 10 ^ 21
           then \<exists>n::int. z = round64 (of_int n / 10 ^ d) \<and> \<bar>of_int n / 10 ^ d - x\<bar> \<le> 1 / (2 * 10 ^ d)
           else z = round64 x)
      | _ \<Rightarrow> z = y)"

section \<open>Example data\<close>

text \<open>
  Candles whose open, high, low and close are one price, numbered by their position,
  and a configuration for the pair BTC/USDT in paper mode.
\<close>

definition flat_candle :: "nat \<Rightarrow> real \<Rightarrow> OHLCVRecord" where
  "flat_candle t c =
     \<lparr>timestamp = Finite (real t), open = Finite c, high = Finite c, low = Finite c,
      close = Finite c, volume = Finite 1\<rparr>"

definition flat_candles :: "real list \<Rightarrow> OHLCVRecord list" where
  "flat_candles cs = map (\<lambda>(t, c). flat_candle t c) (enumerate 0 cs)"

definition example_config :: "int \<Rightarrow> int \<Rightarrow> number \<Rightarrow> number \<Rightarrow> StrategyConfig" where
  "example_config fl sl cap risk =
     \<lparr>symbol = ''BTC/USDT'', timeframe = ''1h'', fastLength = fl, slowLength = sl,
      capital = cap, riskPercent = risk, mode = Paper\<rparr>"


section \<open>Rounding to binary64\<close>

text \<open>
  The threshold of overflow as a numeral, for evaluation.
\<close>

lemma overflow_threshold_code [code]:
  "overflow_threshold = 179769313486231590772930519078902473361797697894230657273430081157732675805500963132708477322407536021120113879871393357658789768814416622492847430639474124377767893424865485276302219601246094119453082952085005768838150682342462881473913110540827237163350510684586298239947245938479716304835356329624224137216"
  by (simp add: overflow_threshold_def)

text \<open>
  Rounding to an integer keeps the integers and the order.
\<close>

lemma round_half_even_of_int: "round_half_even (of_int k) = k"
  by (simp add: round_half_even_def)

lemma round_half_even_bounds: "\<lfloor>x\<rfloor> \<le> round_half_even x" "round_half_even x \<le> \<lfloor>x\<rfloor> + 1"
  by (simp_all add: round_half_even_def Let_def)

lemma round_half_even_mono:
  assumes "x \<le> y"
  shows "round_half_even x \<le> round_half_even y"
proof (cases "\<lfloor>x\<rfloor> = \<lfloor>y\<rfloor>")
  case True
  then have "x - of_int \<lfloor>x\<rfloor> \<le> y - of_int \<lfloor>y\<rfloor>" using assms by simp
  then show ?thesis using True by (auto simp add: round_half_even_def Let_def)
next
  case False
  moreover have "\<lfloor>x\<rfloor> \<le> \<lfloor>y\<rfloor>" using assms by (rule floor_mono)
  ultimately have "\<lfloor>x\<rfloor> + 1 \<le> \<lfloor>y\<rfloor>" by simp
  with round_half_even_bounds(2) [of x] round_half_even_bounds(1) [of y]
  show ?thesis by linarith
qed

text \<open>
  The binary exponent of a positive real brackets it between two powers of 2, and
  grows with it.
\<close>

lemma binary_exponent_lower:
  assumes "0 < a"
  shows "2 powi binary_exponent a \<le> a"
proof (cases "1 \<le> a")
  case True
  let ?n = "\<lfloor>a\<rfloor>"
  have n: "0 < ?n" using True by simp
  then have b: "1 \<le> bitlen ?n" using bitlen_eq_zero_iff [of ?n] bitlen_nonneg [of ?n] by linarith
  from bitlen_bounds [OF n] have "2 ^ nat (bitlen ?n - 1) \<le> ?n" by simp
  then have "real_of_int (2 ^ nat (bitlen ?n - 1)) \<le> real_of_int ?n" by (rule of_int_le_iff [THEN iffD2])
  then have "(2::real) ^ nat (bitlen ?n - 1) \<le> a" by (simp add: le_floor_iff)
  moreover have "(2::real) powi (bitlen ?n - 1) = 2 ^ nat (bitlen ?n - 1)"
    using b by (simp add: power_int_def)
  ultimately show ?thesis using True by (simp add: binary_exponent_def)
next
  case False
  let ?m = "\<lceil>1 / a\<rceil> - 1"
  have "1 < 1 / a" using False assms by simp
  then have m: "0 < ?m" by linarith
  have le: "1 / a \<le> real_of_int ?m + 1" by (simp add: le_of_int_ceiling)
  from bitlen_bounds [OF m] have "?m < 2 ^ nat (bitlen ?m)" by simp
  then have "?m + 1 \<le> 2 ^ nat (bitlen ?m)" by simp
  then have "real_of_int (?m + 1) \<le> real_of_int (2 ^ nat (bitlen ?m))" by (rule of_int_le_iff [THEN iffD2])
  moreover have "real_of_int (2 ^ nat (bitlen ?m)) = 2 ^ nat (bitlen ?m)" by simp
  moreover have "real_of_int (?m + 1) = real_of_int ?m + 1" by (simp only: of_int_add of_int_1)
  ultimately have "1 / a \<le> 2 ^ nat (bitlen ?m)" using le by linarith
  then have "1 / 2 ^ nat (bitlen ?m) \<le> a"
    using assms by (simp add: field_simps)
  moreover have "(2::real) powi (- bitlen ?m) = 1 / 2 ^ nat (bitlen ?m)"
    using bitlen_nonneg [of ?m] by (simp add: power_int_def field_simps)
  ultimately show ?thesis using False by (simp add: binary_exponent_def)
qed

lemma binary_exponent_upper:
  assumes "0 < a"
  shows "a < 2 powi (binary_exponent a + 1)"
proof (cases "1 \<le> a")
  case True
  let ?n = "\<lfloor>a\<rfloor>"
  have n: "0 < ?n" using True by simp
  then have b: "1 \<le> bitlen ?n" using bitlen_eq_zero_iff [of ?n] bitlen_nonneg [of ?n] by linarith
  from bitlen_bounds [OF n] have "?n < 2 ^ nat (bitlen ?n)" by simp
  then have "?n + 1 \<le> 2 ^ nat (bitlen ?n)" by simp
  then have "real_of_int (?n + 1) \<le> real_of_int (2 ^ nat (bitlen ?n))" by (rule of_int_le_iff [THEN iffD2])
  moreover have "a < real_of_int (?n + 1)" by simp
  moreover have "real_of_int (2 ^ nat (bitlen ?n)) = 2 ^ nat (bitlen ?n)" by simp
  ultimately have "a < 2 ^ nat (bitlen ?n)" by linarith
  moreover have "(2::real) powi (bitlen ?n - 1 + 1) = 2 ^ nat (bitlen ?n)"
    using b by (simp add: power_int_def)
  ultimately show ?thesis using True by (simp add: binary_exponent_def)
next
  case False
  let ?m = "\<lceil>1 / a\<rceil> - 1"
  have "1 < 1 / a" using False assms by simp
  then have m: "0 < ?m" by linarith
  then have b: "1 \<le> bitlen ?m" using bitlen_eq_zero_iff [of ?m] bitlen_nonneg [of ?m] by linarith
  have lt: "real_of_int ?m < 1 / a" by simp linarith
  from bitlen_bounds [OF m] have "2 ^ nat (bitlen ?m - 1) \<le> ?m" by simp
  then have "real_of_int (2 ^ nat (bitlen ?m - 1)) \<le> real_of_int ?m" by (rule of_int_le_iff [THEN iffD2])
  with lt have "2 ^ nat (bitlen ?m - 1) < 1 / a" by simp
  then have "a < 1 / 2 ^ nat (bitlen ?m - 1)"
    using assms by (simp add: field_simps)
  moreover have "(2::real) powi (- bitlen ?m + 1) = 1 / 2 ^ nat (bitlen ?m - 1)"
  proof -
    have "- bitlen ?m + 1 = - (bitlen ?m - 1)" by simp
    moreover have "(2::real) powi (- (bitlen ?m - 1)) = 1 / 2 powi (bitlen ?m - 1)"
      by (rule power_int_minus_divide)
    moreover have "(2::real) powi (bitlen ?m - 1) = 2 ^ nat (bitlen ?m - 1)"
      using b by (simp add: power_int_def)
    ultimately show ?thesis by simp
  qed
  ultimately show ?thesis using False by (simp add: binary_exponent_def)
qed

lemma two_powi_pos: "0 < (2::real) powi k"
  by simp

lemma two_powi_split: "(2::real) powi (k + 53) = 2 powi 53 * 2 powi k"
  by (simp add: power_int_add)

lemma binary_exponent_mono:
  assumes "0 < a" "a \<le> b"
  shows "binary_exponent a \<le> binary_exponent b"
proof (rule ccontr)
  assume "\<not> binary_exponent a \<le> binary_exponent b"
  then have "binary_exponent b + 1 \<le> binary_exponent a" by simp
  then have "(2::real) powi (binary_exponent b + 1) \<le> 2 powi binary_exponent a"
    by (intro power_int_increasing) simp_all
  moreover have "2 powi binary_exponent a \<le> a" using assms(1) by (rule binary_exponent_lower)
  moreover have "b < 2 powi (binary_exponent b + 1)" using assms by (intro binary_exponent_upper) simp
  ultimately show False using assms(2) by linarith
qed

text \<open>
  The nearest double of a magnitude lies in the binade of the magnitude, its upper end
  included, and grows with the magnitude.
\<close>

lemma magnitude_scaled:
  "a \<noteq> 0 \<Longrightarrow> double_magnitude a =
     of_int (round_half_even (a / 2 powi (max (binary_exponent a) (- 1022) - 52))) *
       2 powi (max (binary_exponent a) (- 1022) - 52)"
  by (simp add: double_magnitude_def Let_def)

lemma double_magnitude_nonneg:
  assumes "0 \<le> a"
  shows "0 \<le> double_magnitude a"
proof (cases "a = 0")
  case True
  then show ?thesis by (simp add: double_magnitude_def)
next
  case False
  let ?q = "max (binary_exponent a) (- 1022) - 52"
  have "0 \<le> a / 2 powi ?q" using assms by simp
  then have "0 \<le> \<lfloor>a / 2 powi ?q\<rfloor>" by simp
  with round_half_even_bounds(1) [of "a / 2 powi ?q"]
  have "0 \<le> round_half_even (a / 2 powi ?q)" by linarith
  then have "0 \<le> real_of_int (round_half_even (a / 2 powi ?q)) * 2 powi ?q"
    by (intro mult_nonneg_nonneg) simp_all
  with False show ?thesis by (simp add: magnitude_scaled)
qed

lemma double_magnitude_upper:
  assumes "0 < a"
  shows "double_magnitude a \<le> 2 powi (max (binary_exponent a) (- 1022) + 1)"
proof -
  let ?E = "max (binary_exponent a) (- 1022)"
  let ?q = "?E - 52"
  have split: "(2::real) powi (?E + 1) = 2 powi 53 * 2 powi ?q"
    using two_powi_split [of ?q] by (simp add: algebra_simps)
  have "a < 2 powi (binary_exponent a + 1)" using assms by (rule binary_exponent_upper)
  also have "\<dots> \<le> 2 powi (?E + 1)" by (intro power_int_increasing) simp_all
  finally have "a \<le> 2 powi 53 * 2 powi ?q" unfolding split by simp
  then have "a / 2 powi ?q \<le> 2 powi 53"
    by (simp add: pos_divide_le_eq)
  then have "a / 2 powi ?q \<le> real_of_int (2 ^ 53)" by simp
  then have "round_half_even (a / 2 powi ?q) \<le> round_half_even (real_of_int (2 ^ 53))"
    by (rule round_half_even_mono)
  then have "round_half_even (a / 2 powi ?q) \<le> 2 ^ 53"
    by (simp only: round_half_even_of_int)
  then have "real_of_int (round_half_even (a / 2 powi ?q)) \<le> real_of_int (2 ^ 53)"
    by (rule of_int_le_iff [THEN iffD2])
  then have "real_of_int (round_half_even (a / 2 powi ?q)) * 2 powi ?q \<le> real_of_int (2 ^ 53) * 2 powi ?q"
    by (intro mult_right_mono) simp_all
  also have "real_of_int (2 ^ 53) * 2 powi ?q = 2 powi (?E + 1)" unfolding split by simp
  finally show ?thesis using assms by (simp add: magnitude_scaled)
qed

lemma double_magnitude_lower:
  assumes "0 < a" "- 1022 \<le> binary_exponent a"
  shows "2 powi binary_exponent a \<le> double_magnitude a"
proof -
  let ?e = "binary_exponent a"
  let ?q = "?e - 52"
  have E: "max ?e (- 1022) = ?e" using assms(2) by simp
  have split: "(2::real) powi ?e = 2 powi 52 * 2 powi ?q"
    using power_int_add [of "2::real" 52 ?q] by simp
  have "2 powi ?e \<le> a" using assms(1) by (rule binary_exponent_lower)
  then have "2 powi 52 * 2 powi ?q \<le> a" unfolding split .
  then have "2 powi 52 \<le> a / 2 powi ?q"
    by (simp add: pos_le_divide_eq)
  then have "real_of_int (2 ^ 52) \<le> a / 2 powi ?q" by simp
  then have "round_half_even (real_of_int (2 ^ 52)) \<le> round_half_even (a / 2 powi ?q)"
    by (rule round_half_even_mono)
  then have "2 ^ 52 \<le> round_half_even (a / 2 powi ?q)"
    by (simp only: round_half_even_of_int)
  then have "real_of_int (2 ^ 52) \<le> real_of_int (round_half_even (a / 2 powi ?q))"
    by (rule of_int_le_iff [THEN iffD2])
  then have step: "real_of_int (2 ^ 52) * 2 powi ?q \<le> real_of_int (round_half_even (a / 2 powi ?q)) * 2 powi ?q"
    by (intro mult_right_mono) simp_all
  have "2 powi ?e = real_of_int (2 ^ 52) * 2 powi ?q" unfolding split by simp
  also note step
  finally show ?thesis using assms(1) by (simp add: magnitude_scaled E)
qed

lemma double_magnitude_mono:
  assumes "0 \<le> a" "a \<le> b"
  shows "double_magnitude a \<le> double_magnitude b"
proof (cases "a = 0")
  case True
  have "0 \<le> double_magnitude b" using assms by (intro double_magnitude_nonneg) simp
  with True show ?thesis by (simp add: double_magnitude_def)
next
  case False
  then have a: "0 < a" using assms(1) by simp
  then have b: "0 < b" using assms(2) by simp
  let ?Ea = "max (binary_exponent a) (- 1022)"
  let ?Eb = "max (binary_exponent b) (- 1022)"
  have e: "binary_exponent a \<le> binary_exponent b" using a assms(2) by (rule binary_exponent_mono)
  show ?thesis
  proof (cases "?Ea = ?Eb")
    case True
    let ?q = "?Ea - 52"
    have "a / 2 powi ?q \<le> b / 2 powi ?q" using assms(2) by (simp add: divide_right_mono)
    then have "round_half_even (a / 2 powi ?q) \<le> round_half_even (b / 2 powi ?q)"
      by (rule round_half_even_mono)
    then have "real_of_int (round_half_even (a / 2 powi ?q)) \<le> real_of_int (round_half_even (b / 2 powi ?q))"
      by (rule of_int_le_iff [THEN iffD2])
    then have "real_of_int (round_half_even (a / 2 powi ?q)) * 2 powi ?q
        \<le> real_of_int (round_half_even (b / 2 powi ?q)) * 2 powi ?q"
      by (intro mult_right_mono) simp_all
    then show ?thesis using a b True by (simp add: magnitude_scaled)
  next
    case False
    with e have lt: "?Ea + 1 \<le> ?Eb" and nb: "- 1022 \<le> binary_exponent b" and Eb: "?Eb = binary_exponent b"
      by linarith+
    have "double_magnitude a \<le> 2 powi (?Ea + 1)" using a by (rule double_magnitude_upper)
    also have "\<dots> \<le> 2 powi ?Eb" using lt by (intro power_int_increasing) simp_all
    also have "\<dots> \<le> double_magnitude b" unfolding Eb using b nb by (rule double_magnitude_lower)
    finally show ?thesis .
  qed
qed

lemma overflow_threshold_pos: "0 < overflow_threshold"
  by (simp add: overflow_threshold_def)

lemma double_magnitude_zero: "double_magnitude 0 = 0"
  by (simp add: double_magnitude_def)

text \<open>
  Rounding keeps the sign, never gives NaN, and is monotone: the order of two reals is
  the order of their doubles, the infinities included.
\<close>

lemma round64_nonneg:
  "0 \<le> x \<Longrightarrow> round64 x =
     (if overflow_threshold \<le> double_magnitude x then PosInfinity else Finite (double_magnitude x))"
  using overflow_threshold_pos
  by (cases "x = 0") (auto simp: round64_def Let_def signed_infinity_def double_magnitude_zero sgn_if)

lemma round64_nonpos:
  "x \<le> 0 \<Longrightarrow> round64 x =
     (if overflow_threshold \<le> double_magnitude (- x) then NegInfinity else Finite (- double_magnitude (- x)))"
  using overflow_threshold_pos
  by (cases "x = 0") (auto simp: round64_def Let_def signed_infinity_def double_magnitude_zero sgn_if)

lemma round64_not_NaN: "round64 x \<noteq> NaN"
  by (simp add: round64_def Let_def signed_infinity_def)

lemma round64_zero: "round64 0 = Finite 0"
  using overflow_threshold_pos by (simp add: round64_nonneg double_magnitude_zero not_le)

lemma round64_mono:
  assumes "x \<le> y"
  shows "js_le (round64 x) (round64 y)"
proof (cases "0 \<le> x")
  case True
  then have y: "0 \<le> y" using assms by simp
  have "double_magnitude x \<le> double_magnitude y" using True assms by (rule double_magnitude_mono)
  then show ?thesis using True y by (simp add: round64_nonneg)
next
  case False
  then have x: "x \<le> 0" by simp
  show ?thesis
  proof (cases "0 \<le> y")
    case True
    have "0 \<le> double_magnitude (- x)" using x by (intro double_magnitude_nonneg) simp
    moreover have "0 \<le> double_magnitude y" using True by (rule double_magnitude_nonneg)
    ultimately show ?thesis using x True by (simp add: round64_nonneg round64_nonpos)
  next
    case False
    then have y: "y \<le> 0" by simp
    have "double_magnitude (- y) \<le> double_magnitude (- x)"
      using False assms by (intro double_magnitude_mono) simp_all
    then show ?thesis using x y by (simp add: round64_nonpos)
  qed
qed

text \<open>
  The doubles are symmetric about 0, and a real no larger in magnitude than a double
  rounds to a finite value.
\<close>

lemma is_double_minus: "is_double (- x) = is_double x"
proof (cases "0 \<le> x")
  case True
  then show ?thesis
    by (cases "x = 0") (auto simp: is_double_def round64_nonneg round64_nonpos)
next
  case False
  then show ?thesis
    by (auto simp: is_double_def round64_nonneg round64_nonpos)
qed

lemma round64_within_double:
  assumes "is_double c" "\<bar>v\<bar> \<le> \<bar>c\<bar>"
  shows "\<exists>m. round64 v = Finite m"
proof -
  have "is_double \<bar>c\<bar>" using assms(1) by (simp add: abs_if is_double_minus)
  then have "double_magnitude \<bar>c\<bar> < overflow_threshold"
    by (auto simp: is_double_def round64_nonneg split: if_splits)
  moreover have "double_magnitude \<bar>v\<bar> \<le> double_magnitude \<bar>c\<bar>"
    using assms(2) by (intro double_magnitude_mono) simp_all
  ultimately show ?thesis by (simp add: round64_def Let_def)
qed

text \<open>
  Rounding is idempotent: what it returns is a double. So a rounded value passes
  \<^verbatim>\<open>Number.isFinite\<close> exactly when it is not an infinity, and so does the result of
  \<^verbatim>\<open>Number(x.toFixed(d))\<close>.
\<close>

lemma double_magnitude_idem:
  assumes "0 \<le> a"
  shows "double_magnitude (double_magnitude a) = double_magnitude a"
proof (cases "double_magnitude a = 0")
  case True
  then show ?thesis by (simp add: double_magnitude_zero)
next
  case False
  then have a: "0 < a" using assms by (cases "a = 0") (simp_all add: double_magnitude_zero)
  let ?R = "double_magnitude a"
  let ?E = "max (binary_exponent a) (- 1022)"
  let ?q = "?E - 52"
  let ?n = "round_half_even (a / 2 powi ?q)"
  let ?e' = "binary_exponent ?R"
  let ?E' = "max ?e' (- 1022)"
  let ?q' = "?E' - 52"
  have R: "?R = real_of_int ?n * 2 powi ?q" using a by (simp add: magnitude_scaled)
  have Rpos: "0 < ?R" using False double_magnitude_nonneg [OF assms] by simp
  have up: "?R \<le> 2 powi (?E + 1)" using a by (rule double_magnitude_upper)
  have lo': "2 powi ?e' \<le> ?R" using Rpos by (rule binary_exponent_lower)
  have e': "?e' \<le> ?E + 1"
  proof (rule ccontr)
    assume "\<not> ?e' \<le> ?E + 1"
    then have "?E + 1 < ?e'" by simp
    then have "(2::real) powi (?E + 1) < 2 powi ?e'" by (intro power_int_strict_increasing) simp_all
    with lo' up show False by linarith
  qed
  have scaled: "?R = real_of_int k * 2 powi ?q' \<Longrightarrow> double_magnitude ?R = ?R" for k
  proof -
    assume k: "?R = real_of_int k * 2 powi ?q'"
    define Q :: real where "Q = 2 powi ?q'"
    have Q: "0 < Q" by (simp add: Q_def)
    have kQ: "?R = real_of_int k * Q" using k by (simp only: Q_def)
    have "real_of_int k * Q / Q = real_of_int k" using Q by simp
    then have "?R / Q = real_of_int k" by (simp only: kQ [symmetric])
    then have "round_half_even (?R / Q) = k" by (simp only: round_half_even_of_int)
    then have "real_of_int (round_half_even (?R / Q)) * Q = ?R" by (simp only: kQ [symmetric])
    moreover have "double_magnitude ?R = real_of_int (round_half_even (?R / Q)) * Q"
      unfolding Q_def using False by (rule magnitude_scaled)
    ultimately show "double_magnitude ?R = ?R" by (rule trans [rotated])
  qed
  define q where "q = ?q"
  define q' where "q' = ?q'"
  define n where "n = ?n"
  have Rn: "?R = real_of_int n * 2 powi q" using R by (simp only: n_def q_def)
  show ?thesis
  proof (cases "?e' \<le> ?E")
    case True
    then have d: "0 \<le> q - q'" by (simp add: q_def q'_def)
    have "(2::real) powi q = 2 powi (q' + (q - q'))" by simp
    also have "\<dots> = 2 powi q' * 2 powi (q - q')" by (rule power_int_add) simp
    also have "(2::real) powi (q - q') = 2 ^ nat (q - q')" using d by (rule power_int_nonneg_exp)
    finally have split: "(2::real) powi q = 2 powi q' * 2 ^ nat (q - q')" .
    have "real_of_int n * 2 powi q = real_of_int (n * 2 ^ nat (q - q')) * 2 powi q'"
      by (simp add: split)
    with Rn have "?R = real_of_int (n * 2 ^ nat (q - q')) * 2 powi q'" by (rule trans)
    then show ?thesis unfolding q'_def by (rule scaled)
  next
    case False
    with e' have eq: "?e' = ?E + 1" by simp
    then have E': "?E + 1 = 52 + q'" by (simp add: q'_def)
    from lo' up eq have "?R = 2 powi (?E + 1)" by simp
    also have "(2::real) powi (?E + 1) = 2 powi (52 + q')" by (simp only: E')
    also have "\<dots> = 2 powi 52 * 2 powi q'" by (rule power_int_add) simp
    also have "\<dots> = real_of_int (2 ^ 52) * 2 powi q'" by simp
    finally have "?R = real_of_int (2 ^ 52) * 2 powi q'" .
    then show ?thesis unfolding q'_def by (rule scaled)
  qed
qed

lemma round64_is_double:
  assumes "round64 x = Finite r"
  shows "is_double r"
proof -
  have m: "double_magnitude \<bar>x\<bar> < overflow_threshold" and r: "r = sgn x * double_magnitude \<bar>x\<bar>"
    using assms by (auto simp: round64_def Let_def signed_infinity_def split: if_splits)
  let ?R = "double_magnitude \<bar>x\<bar>"
  have nn: "0 \<le> ?R" by (intro double_magnitude_nonneg) simp
  have idem: "double_magnitude ?R = ?R" by (intro double_magnitude_idem) simp
  have pos: "is_double ?R"
    using nn m idem by (simp add: is_double_def round64_nonneg)
  show ?thesis
  proof (cases "0 \<le> x")
    case True
    then show ?thesis using pos r by (cases "x = 0") (simp_all add: double_magnitude_zero sgn_if)
  next
    case False
    then have "r = - ?R" using r by (simp add: sgn_if)
    then show ?thesis using pos by (simp add: is_double_minus)
  qed
qed

lemma Number_isFinite_round64: "Number_isFinite (round64 x) = (\<exists>r. round64 x = Finite r)"
  using round64_is_double [of x] by (cases "round64 x") auto

lemma Number_isFinite_toFixed:
  "Number_isFinite (Number_toFixed d v) = (\<exists>r. Number_toFixed d v = Finite r)"
  by (cases v) (simp_all add: Number_isFinite_round64)

section \<open>The loop and the evaluation on valid input\<close>

text \<open>
  The loop appends one entry for every index from \<open>i\<close> on, so with a positive period the
  moving average is the list of the entries of all indices.
\<close>

lemma sma_loop_eq: "sma_loop vs p i res = res @ map (sma_entry vs p) [i..<length vs]"
proof (induction vs p i res rule: sma_loop.induct)
  case (1 vs period i result)
  show ?case
  proof (cases "i < length vs")
    case False
    then show ?thesis by (simp add: sma_loop.simps [of vs period i result])
  next
    case True
    note lt = this
    show ?thesis
    proof (cases "int i + 1 < period")
      case True
      with lt "1.IH"(1) show ?thesis
        by (simp add: sma_loop.simps [of vs period i result] sma_entry_def upt_conv_Cons)
    next
      case False
      with lt "1.IH"(2) [OF lt False refl refl] show ?thesis
        by (simp add: sma_loop.simps [of vs period i result] sma_entry_def upt_conv_Cons Let_def)
    qed
  qed
qed

lemma simpleMovingAverage_ok:
  "0 < p \<Longrightarrow> simpleMovingAverage vs p = Inr (map (sma_entry vs p) [0..<length vs])"
  by (simp add: simpleMovingAverage_def sma_loop_eq)

text \<open>
  From the index \<open>P - 1\<close> on, the window sliced by the loop holds the \<open>P\<close> values that end
  at the index, and the entry is their mean in binary64. When no partial sum and not
  the quotient needs rounding, that mean is the arithmetic mean of the reals.
\<close>

lemma take_drop_nth: "k + n \<le> length xs \<Longrightarrow> take n (drop k xs) = map (\<lambda>j. xs ! j) [k..<k + n]"
  by (rule nth_equalityI) simp_all

lemma js_slice_window:
  assumes "1 \<le> p" "p \<le> int i + 1" "i < length vs"
  shows "js_slice vs (int i + 1 - p) (int i + 1) = map (\<lambda>k. vs ! k) [i + 1 - nat p..<i + 1]"
proof -
  have n: "nat (int i + 1) = Suc i" by simp
  have "js_slice vs (int i + 1 - p) (int i + 1) = take (nat p) (drop (i + 1 - nat p) vs)"
    using assms by (simp add: js_slice_def Let_def min_def nat_diff_distrib n)
  also have "\<dots> = map (\<lambda>k. vs ! k) [i + 1 - nat p..<(i + 1 - nat p) + nat p]"
    using assms by (intro take_drop_nth) linarith
  also have "(i + 1 - nat p) + nat p = i + 1"
    using assms by linarith
  finally show ?thesis .
qed

lemma foldl_js_add_exact:
  "exact_sums a rs \<Longrightarrow> foldl js_add (Finite a) (map Finite rs) = Finite (a + sum_list rs)"
  by (induction rs arbitrary: a) (simp_all add: is_double_def add.assoc)

lemma window_mean_exact:
  assumes "rs \<noteq> []" "exact_sums 0 rs" "is_double (sum_list rs / real (length rs))"
  shows "window_mean (map Finite rs) = Finite (sum_list rs / real (length rs))"
  using assms foldl_js_add_exact [of 0 rs] by (simp add: window_mean_def is_double_def)

lemma sma_entry_mean:
  assumes "1 \<le> p" "p \<le> int i + 1" "i < length vs"
  shows "sma_entry vs p i = Some (window_mean (map (\<lambda>k. vs ! k) [i + 1 - nat p..<i + 1]))"
proof -
  have "real (length [i + 1 - nat p..<i + 1]) = of_int p"
    using assms by simp
  then show ?thesis
  using assms by (simp add: sma_entry_def js_slice_window window_mean_def del: length_upt)
qed

text \<open>
  The computation returned on a non-empty candle sequence and positive periods: the
  reads at the last index and before it, and every local of the engine, spelled out.
\<close>

lemma js_index_map_upt:
  "js_index (map f [0..<n]) i = (if 0 \<le> i \<and> i < int n then f (nat i) else None)"
  by (auto simp add: js_index_def nat_less_iff)

lemma latest_close:
  "candles \<noteq> [] \<Longrightarrow> map close candles ! nat (int (length candles) - 1) = close (last candles)"
proof -
  assume ne: "candles \<noteq> []"
  then have "nat (int (length candles) - 1) = length candles - 1" by simp
  with ne show ?thesis by (simp add: last_conv_nth)
qed

lemma evaluateStrategy_valid:
  assumes "candles \<noteq> []" "0 < fastLength config" "0 < slowLength config"
  shows "evaluateStrategy candles config =
    (let closes = map close candles;
         n = length candles;
         lastFast = sma_entry closes (fastLength config) (n - 1);
         lastSlow = sma_entry closes (slowLength config) (n - 1);
         prevFast = (if 2 \<le> n then sma_entry closes (fastLength config) (n - 2) else None);
         prevSlow = (if 2 \<le> n then sma_entry closes (slowLength config) (n - 2) else None);
         latestPrice' = close (last candles);
         decision = signal lastFast lastSlow prevFast prevSlow;
         riskFraction =
           Math_max [Math_min [js_div (riskPercent config) (Finite 100), Finite 1], Finite 0];
         positionSize' =
           (if js_gt latestPrice' (Finite 0)
            then Number_toFixed 6 (js_div (js_mul (capital config) riskFraction) latestPrice')
            else Finite 0);
         recent = js_slice candles (- slowLength config) (int n);
         stopLoss' =
           (if fst decision = Buy then Number_toFixed 2 (js_mul (Math_min (map low recent)) (js_literal (99 / 100)))
            else Number_toFixed 2 (js_mul (Math_max (map high recent)) (js_literal (101 / 100))));
         takeProfit' =
           (if fst decision = Buy then Number_toFixed 2 (js_mul latestPrice' (js_literal (103 / 100)))
            else Number_toFixed 2 (js_mul latestPrice' (js_literal (97 / 100))))
     in Inr \<lparr>action = fst decision, reason = snd decision, latestPrice = latestPrice',
             positionSize = positionSize',
             stopLoss = (if Number_isFinite stopLoss' then Some stopLoss' else None),
             takeProfit = (if Number_isFinite takeProfit' then Some takeProfit' else None),
             fastMA = map (sma_entry closes (fastLength config)) [0..<n],
             slowMA = map (sma_entry closes (slowLength config)) [0..<n]\<rparr>)"
proof -
  let ?n = "length candles"
  have l: "0 < ?n" using assms(1) by simp
  have last_ix: "js_index (map f [0..<?n]) (int ?n - 1) = f (?n - 1)" for f :: "nat \<Rightarrow> number option"
  proof -
    have "nat (int ?n - 1) = ?n - 1" by simp
    with l show ?thesis by (simp add: js_index_map_upt)
  qed
  have prev_ix: "js_index (map f [0..<?n]) (int ?n - 2) = (if 2 \<le> ?n then f (?n - 2) else None)"
    for f :: "nat \<Rightarrow> number option"
  proof (cases "2 \<le> ?n")
    case True
    then have "nat (int ?n - 2) = ?n - 2" by simp
    with True show ?thesis by (simp add: js_index_map_upt)
  next
    case False
    then show ?thesis by (simp add: js_index_map_upt)
  qed
  have price: "map close candles ! nat (int ?n - 1) = close (last candles)"
    using latest_close [OF assms(1)] by simp
  show ?thesis
    using assms(2,3) l
    by (simp add: evaluateStrategy_def simpleMovingAverage_ok Let_def last_ix prev_ix price
        split del: if_split cong: if_cong)
qed

section \<open>Comparisons, rounding to decimals and the risk fraction\<close>

text \<open>
  A comparison with NaN is false; between numbers, \<open>\<le>\<close> is ``not greater'', and neither
  greater nor less is equality.
\<close>

lemma js_mul_NaN_right: "js_mul c NaN = NaN"
  by (cases c) simp_all

lemma js_lt_NaN_right: "\<not> js_lt x NaN"
  by (cases x) simp_all

lemma js_le_NaN_right: "\<not> js_le x NaN"
  by (cases x) simp_all

lemma le_not_gt: "js_le a b \<Longrightarrow> \<not> js_gt a b"
  by (cases a; cases b) (simp_all add: js_gt_def)

lemma not_gt_le: "\<not> js_gt a b \<Longrightarrow> a \<noteq> NaN \<Longrightarrow> b \<noteq> NaN \<Longrightarrow> js_le a b"
  by (cases a; cases b) (simp_all add: js_gt_def)

lemma le_zero_not_gt: "js_le x (Finite 0) \<Longrightarrow> \<not> js_gt x (Finite 0)"
  by (cases x) (simp_all add: js_gt_def)

lemma not_le_zero_gt: "x \<noteq> NaN \<Longrightarrow> \<not> js_le x (Finite 0) \<Longrightarrow> js_gt x (Finite 0)"
  by (cases x) (simp_all add: js_gt_def)

lemma not_lt_gt_iff_eq:
  "x \<noteq> NaN \<Longrightarrow> y \<noteq> NaN \<Longrightarrow> (\<not> js_gt x y \<and> \<not> js_lt x y) = (x = y)"
  by (cases x; cases y) (auto simp: js_gt_def)

lemma not_lt_PosInfinity: "\<not> js_lt PosInfinity a"
  by (cases a) simp_all

lemma not_lt_NegInfinity: "\<not> js_lt a NegInfinity"
  by (cases a) simp_all

lemma round64_mono_not_gt: "x \<le> y \<Longrightarrow> \<not> js_gt (round64 x) (round64 y)"
  by (intro le_not_gt round64_mono)

lemma round64_not_lt: "y \<le> x \<Longrightarrow> \<not> js_lt (round64 x) (round64 y)"
  using round64_mono_not_gt [of y x] by (simp add: js_gt_def)

text \<open>
  Below \<open>10^21\<close> in magnitude, \<open>toFixed_value d\<close> is a rounding to \<open>d\<close> decimals: its
  result is an integer multiple of \<open>10^-d\<close> at most half a unit of the last decimal
  away. \<open>Number_toFixed d\<close> is the double nearest to that multiple, which is what
  \<open>rounded_to\<close> asks for; it never turns a number into NaN.
\<close>

lemma toFixed_value_rounds:
  assumes "\<bar>x\<bar> < 10 ^ 21"
  shows "\<exists>n::int. toFixed_value d x = of_int n / 10 ^ d \<and>
           \<bar>of_int n / 10 ^ d - x\<bar> \<le> 1 / (2 * 10 ^ d)"
proof -
  define m where "m = \<lfloor>\<bar>x\<bar> * 10 ^ d + 1 / 2\<rfloor>"
  have p: "(0::real) < 10 ^ d" by simp
  have lo: "of_int m \<le> \<bar>x\<bar> * 10 ^ d + 1 / 2" and hi: "\<bar>x\<bar> * 10 ^ d + 1 / 2 < of_int m + 1"
    unfolding m_def by linarith+
  have half: "\<bar>of_int m - \<bar>x\<bar> * 10 ^ d\<bar> \<le> 1 / 2" using lo hi by linarith
  have "of_int m / 10 ^ d - \<bar>x\<bar> = (of_int m - \<bar>x\<bar> * 10 ^ d) / 10 ^ d"
    by (simp add: diff_divide_distrib)
  then have "\<bar>of_int m / 10 ^ d - \<bar>x\<bar>\<bar> = \<bar>of_int m - \<bar>x\<bar> * 10 ^ d\<bar> / 10 ^ d"
    by (simp only: abs_divide) simp
  also have "\<dots> \<le> (1 / 2) / 10 ^ d"
    using half p by (intro divide_right_mono) simp_all
  finally have close: "\<bar>of_int m / 10 ^ d - \<bar>x\<bar>\<bar> \<le> 1 / (2 * 10 ^ d)"
    by simp
  show ?thesis
  proof (cases "0 \<le> x")
    case True
    then have "toFixed_value d x = of_int m / 10 ^ d"
      using assms by (cases "x = 0") (simp_all add: m_def toFixed_value_def)
    with close True show ?thesis by auto
  next
    case False
    then have "toFixed_value d x = of_int (- m) / 10 ^ d"
      using assms by (simp add: m_def toFixed_value_def)
    moreover have "\<bar>of_int (- m) / 10 ^ d - x\<bar> = \<bar>of_int m / 10 ^ d - \<bar>x\<bar>\<bar>"
      using False by (simp add: abs_minus_commute)
    ultimately show ?thesis using close by metis
  qed
qed

lemma Number_toFixed_rounds:
  assumes "\<bar>x\<bar> < 10 ^ 21"
  shows "\<exists>n::int. Number_toFixed d (Finite x) = round64 (of_int n / 10 ^ d) \<and>
           \<bar>of_int n / 10 ^ d - x\<bar> \<le> 1 / (2 * 10 ^ d)"
  using toFixed_value_rounds [OF assms, of d] by auto

lemma Number_toFixed_not_NaN: "x \<noteq> NaN \<Longrightarrow> Number_toFixed d x \<noteq> NaN"
  by (cases x) (simp_all add: round64_not_NaN)

lemma Number_toFixed_rounded: "rounded_to d y (Number_toFixed d y)"
proof (cases y)
  case (Finite x)
  show ?thesis
  proof (cases "\<bar>x\<bar> < 10 ^ 21")
    case True
    with Number_toFixed_rounds [OF True, of d] Finite show ?thesis
      by (simp add: rounded_to_def)
  next
    case False
    with Finite show ?thesis by (simp add: rounded_to_def toFixed_value_def)
  qed
qed (simp_all add: rounded_to_def)

text \<open>
  The rounding to decimals is odd, keeps the sign and is monotone. Monotonicity of a
  step on numbers is stated as ``the first result is not greater than the second'',
  which a NaN on either side satisfies.
\<close>

lemma toFixed_value_odd: "toFixed_value d (- x) = - toFixed_value d x"
  by (simp add: toFixed_value_def sgn_minus)

lemma toFixed_value_nonneg:
  assumes "0 \<le> x" shows "0 \<le> toFixed_value d x"
proof -
  have "0 \<le> \<lfloor>\<bar>x\<bar> * 10 ^ d + 1 / 2\<rfloor>" using assms by simp
  then have "0 \<le> sgn x * (of_int \<lfloor>\<bar>x\<bar> * 10 ^ d + 1 / 2\<rfloor> / 10 ^ d)"
    using assms by (intro mult_nonneg_nonneg divide_nonneg_nonneg) (simp_all add: sgn_if)
  with assms show ?thesis by (simp add: toFixed_value_def)
qed

lemma toFixed_value_small_bound:
  assumes "0 \<le> (x::real)" "x < 10 ^ 21"
  shows "of_int \<lfloor>x * 10 ^ d + 1 / 2\<rfloor> / 10 ^ d \<le> (10::real) ^ 21"
proof -
  define N :: int where "N = 10 ^ 21 * 10 ^ d"
  have N: "real_of_int N = 10 ^ 21 * 10 ^ d" by (simp add: N_def)
  have "x * 10 ^ d < 10 ^ 21 * 10 ^ d" using assms by simp
  then have "x * 10 ^ d + 1 / 2 < real_of_int N + 1" unfolding N by linarith
  then have "x * 10 ^ d + 1 / 2 < real_of_int (N + 1)" by simp
  then have "\<lfloor>x * 10 ^ d + 1 / 2\<rfloor> < N + 1" by (rule floor_less_iff [THEN iffD2])
  then have "\<lfloor>x * 10 ^ d + 1 / 2\<rfloor> \<le> N" by linarith
  then have "real_of_int \<lfloor>x * 10 ^ d + 1 / 2\<rfloor> \<le> real_of_int N"
    by (rule of_int_le_iff [THEN iffD2])
  then have "real_of_int \<lfloor>x * 10 ^ d + 1 / 2\<rfloor> \<le> 10 ^ 21 * 10 ^ d" unfolding N .
  then show ?thesis by (simp add: pos_divide_le_eq)
qed

lemma toFixed_value_mono_nonneg:
  assumes "0 \<le> x" "x \<le> y"
  shows "toFixed_value d x \<le> toFixed_value d y"
proof -
  have y: "0 \<le> y" using assms by simp
  have fx: "x < 10 ^ 21 \<Longrightarrow> toFixed_value d x = of_int \<lfloor>x * 10 ^ d + 1 / 2\<rfloor> / 10 ^ d"
    using assms(1) by (cases "x = 0") (simp_all add: toFixed_value_def sgn_if)
  have fy: "y < 10 ^ 21 \<Longrightarrow> toFixed_value d y = of_int \<lfloor>y * 10 ^ d + 1 / 2\<rfloor> / 10 ^ d"
    using y by (cases "y = 0") (simp_all add: toFixed_value_def sgn_if)
  have bx: "10 ^ 21 \<le> x \<Longrightarrow> toFixed_value d x = x"
    using assms(1) by (simp add: toFixed_value_def)
  have bigy: "10 ^ 21 \<le> y \<Longrightarrow> toFixed_value d y = y"
    using y by (simp add: toFixed_value_def)
  show ?thesis
  proof (cases "y < 10 ^ 21")
    case True
    then have xs: "x < 10 ^ 21" using assms by simp
    have "x * 10 ^ d + 1 / 2 \<le> y * 10 ^ d + 1 / 2" using assms by simp
    then have "\<lfloor>x * 10 ^ d + 1 / 2\<rfloor> \<le> \<lfloor>y * 10 ^ d + 1 / 2\<rfloor>" by (rule floor_mono)
    then have "(of_int \<lfloor>x * 10 ^ d + 1 / 2\<rfloor> :: real) / 10 ^ d \<le> of_int \<lfloor>y * 10 ^ d + 1 / 2\<rfloor> / 10 ^ d"
      by (intro divide_right_mono) simp_all
    with True xs show ?thesis by (simp add: fx fy)
  next
    case False
    then have yb: "10 ^ 21 \<le> y" by simp
    show ?thesis
    proof (cases "x < 10 ^ 21")
      case True
      with assms(1) have "of_int \<lfloor>x * 10 ^ d + 1 / 2\<rfloor> / 10 ^ d \<le> (10::real) ^ 21"
        by (rule toFixed_value_small_bound)
      with True yb show ?thesis by (simp add: fx bigy)
    next
      case False
      with yb assms show ?thesis by (simp add: bx bigy)
    qed
  qed
qed

lemma toFixed_value_mono:
  assumes "x \<le> y"
  shows "toFixed_value d x \<le> toFixed_value d y"
proof (cases "0 \<le> x")
  case True
  then show ?thesis using assms by (rule toFixed_value_mono_nonneg)
next
  case False
  note neg = this
  show ?thesis
  proof (cases "0 \<le> y")
    case True
    have "toFixed_value d x = - toFixed_value d (- x)" by (simp add: toFixed_value_odd)
    moreover have "0 \<le> toFixed_value d (- x)" using neg by (intro toFixed_value_nonneg) simp
    moreover have "0 \<le> toFixed_value d y" using True by (rule toFixed_value_nonneg)
    ultimately show ?thesis by simp
  next
    case False
    then have "0 \<le> - y" "- y \<le> - x" using assms by simp_all
    then have "toFixed_value d (- y) \<le> toFixed_value d (- x)" by (rule toFixed_value_mono_nonneg)
    then show ?thesis by (simp add: toFixed_value_odd)
  qed
qed

lemma Number_toFixed_mono:
  "\<not> js_gt a b \<Longrightarrow> \<not> js_gt (Number_toFixed d a) (Number_toFixed d b)"
proof (cases a; cases b)
  fix x y
  assume ab: "\<not> js_gt a b" "a = Finite x" "b = Finite y"
  then have "x \<le> y" by (simp add: js_gt_def)
  then have "toFixed_value d x \<le> toFixed_value d y" by (rule toFixed_value_mono)
  then show ?thesis using ab by (simp add: round64_mono_not_gt)
next
  fix x
  assume "a = Finite x" "b = PosInfinity"
  then show ?thesis using round64_not_NaN [of "toFixed_value d x"]
    by (cases "round64 (toFixed_value d x)") (simp_all add: js_gt_def)
next
  fix y
  assume "a = NegInfinity" "b = Finite y"
  then show ?thesis using round64_not_NaN [of "toFixed_value d y"]
    by (cases "round64 (toFixed_value d y)") (simp_all add: js_gt_def)
qed (simp_all add: js_gt_def js_lt_NaN_right)

text \<open>
  The risk fraction \<^verbatim>\<open>Math.max(Math.min(riskPercent / 100, 1), 0)\<close> is the clamp to the
  interval from 0 to 1: NaN for NaN, and otherwise a finite value of that interval that
  grows with the percentage.
\<close>

lemma riskFraction_clamp:
  "Math_max [Math_min [x, Finite 1], Finite 0] = clamp x (Finite 0) (Finite 1)"
  by (cases x) (auto simp: Math_max_def Math_min_def min_step_def max_step_def clamp_def js_gt_def)

lemma clamp_unit:
  "y \<noteq> NaN \<Longrightarrow> \<exists>f. clamp y (Finite 0) (Finite 1) = Finite f \<and> 0 \<le> f \<and> f \<le> 1"
proof (cases y)
  case (Finite r)
  have "clamp y (Finite 0) (Finite 1) = Finite (if r < 0 then 0 else if 1 < r then 1 else r)"
    using Finite by (simp add: clamp_def js_gt_def)
  moreover have "0 \<le> (if r < 0 then 0 else if 1 < r then 1 else r)"
    and "(if r < 0 then 0 else if 1 < r then 1 else r) \<le> 1"
    by simp_all
  ultimately show ?thesis by blast
qed (simp_all add: clamp_def js_gt_def)

lemma clamp_mono:
  "\<not> js_gt a b \<Longrightarrow> \<not> js_gt (clamp a (Finite 0) (Finite 1)) (clamp b (Finite 0) (Finite 1))"
  by (cases a; cases b) (auto simp: clamp_def js_gt_def)

lemma percent_not_NaN: "x \<noteq> NaN \<Longrightarrow> js_div x (Finite 100) \<noteq> NaN"
  by (cases x) (simp_all add: round64_not_NaN signed_infinity_def)

lemma percent_mono: "\<not> js_gt a b \<Longrightarrow> \<not> js_gt (js_div a (Finite 100)) (js_div b (Finite 100))"
proof (cases a; cases b)
  fix x y
  assume ab: "\<not> js_gt a b" "a = Finite x" "b = Finite y"
  then have "x / 100 \<le> y / 100" by (simp add: js_gt_def)
  then show ?thesis using ab by (simp add: round64_mono_not_gt)
next
  fix x
  assume "a = Finite x" "b = PosInfinity"
  then show ?thesis using round64_not_NaN [of "x / 100"]
    by (cases "round64 (x / 100)") (simp_all add: js_gt_def signed_infinity_def)
next
  fix y
  assume "a = NegInfinity" "b = Finite y"
  then show ?thesis using round64_not_NaN [of "y / 100"]
    by (cases "round64 (y / 100)") (simp_all add: js_gt_def signed_infinity_def)
qed (simp_all add: js_gt_def js_lt_NaN_right signed_infinity_def)

lemma clamp_unit_range:
  "x \<noteq> NaN \<Longrightarrow> \<exists>f. clamp (js_div x (Finite 100)) (Finite 0) (Finite 1) = Finite f \<and> 0 \<le> f \<and> f \<le> 1"
  by (intro clamp_unit percent_not_NaN)

lemma clamp_percent_cases:
  "clamp (js_div k (Finite 100)) (Finite 0) (Finite 1) = NaN \<or>
   (\<exists>f. clamp (js_div k (Finite 100)) (Finite 0) (Finite 1) = Finite f \<and> 0 \<le> f \<and> f \<le> 1)"
proof (cases "k = NaN")
  case True
  then show ?thesis by (simp add: clamp_def)
next
  case False
  then show ?thesis using clamp_unit_range by blast
qed

lemma clamp_percent_mono:
  "\<not> js_gt k1 k2 \<Longrightarrow>
   \<not> js_gt (clamp (js_div k1 (Finite 100)) (Finite 0) (Finite 1))
            (clamp (js_div k2 (Finite 100)) (Finite 0) (Finite 1))"
  by (intro clamp_mono percent_mono)

section \<open>Price, size and bounds of a computation\<close>

text \<open>
  With a positive slow period, \<^verbatim>\<open>candles.slice(-slowLength)\<close> is the trailing window:
  the last \<open>slowLength\<close> candles, or all of them when there are fewer.
\<close>

lemma recent_window:
  assumes "0 < sl"
  shows "js_slice xs (- sl) (int (length xs)) = drop (length xs - nat sl) xs"
proof -
  let ?n = "length xs"
  have k: "nat (max (int ?n - sl) 0) = ?n - nat sl"
    using assms by linarith
  have "js_slice xs (- sl) (int ?n) =
      take (nat (int ?n - max (int ?n - sl) 0)) (drop (?n - nat sl) xs)"
    using assms by (simp add: js_slice_def Let_def k)
  also have "\<dots> = drop (?n - nat sl) xs"
  proof (rule take_all)
    have "length (drop (?n - nat sl) xs) = ?n - (?n - nat sl)" by simp
    also have "\<dots> \<le> nat (int ?n - max (int ?n - sl) 0)"
      using assms by linarith
    finally show "length (drop (?n - nat sl) xs) \<le> nat (int ?n - max (int ?n - sl) 0)" .
  qed
  finally show ?thesis .
qed

text \<open>
  The price, the size and the two bounds of a computation on valid input. The bounds
  follow the action: the formulas of a buy, or else (sell and hold alike) those of a
  sell; each bound is kept when it is finite and absent otherwise. The size is that of
  the rule of the specification.
\<close>

lemma evaluateStrategy_stops:
  assumes "candles \<noteq> []" "0 < fastLength config" "0 < slowLength config"
  shows "\<exists>r. evaluateStrategy candles config = Inr r \<and>
    latestPrice r = close (last candles) \<and>
    positionSize r =
      (if js_gt (close (last candles)) (Finite 0)
       then Number_toFixed 6
              (js_div (js_mul (capital config)
                              (clamp (js_div (riskPercent config) (Finite 100)) (Finite 0) (Finite 1)))
                      (close (last candles)))
       else Finite 0) \<and>
    stopLoss r =
      (let s = (if action r = Buy
                then Number_toFixed 2
                       (js_mul (Math_min (map low (drop (length candles - nat (slowLength config)) candles)))
                               (js_literal (99 / 100)))
                else Number_toFixed 2
                       (js_mul (Math_max (map high (drop (length candles - nat (slowLength config)) candles)))
                               (js_literal (101 / 100))))
       in if Number_isFinite s then Some s else None) \<and>
    takeProfit r =
      (let t = (if action r = Buy
                then Number_toFixed 2 (js_mul (close (last candles)) (js_literal (103 / 100)))
                else Number_toFixed 2 (js_mul (close (last candles)) (js_literal (97 / 100))))
       in if Number_isFinite t then Some t else None)"
  using assms
  by (simp add: evaluateStrategy_valid Let_def recent_window riskFraction_clamp
      split del: if_split cong: if_cong)

lemma positionSize_rule:
  assumes "candles \<noteq> []" "0 < fastLength config" "0 < slowLength config"
  shows "\<exists>r. evaluateStrategy candles config = Inr r \<and>
    positionSize r = position_size_rule (capital config) (riskPercent config) (close (last candles))"
  using evaluateStrategy_stops [OF assms] unfolding position_size_rule_def by blast

text \<open>
  Each step of the sizing keeps the order of its inputs: a product with a factor that
  is not negative, and a quotient by a positive price, are rounded monotonically.
\<close>

lemma round64_mul_right: "x \<le> y \<Longrightarrow> 0 \<le> f \<Longrightarrow> \<not> js_lt (round64 (y * f)) (round64 (x * f))"
  by (intro round64_not_lt mult_right_mono)

lemma round64_mul_left: "0 \<le> c \<Longrightarrow> f1 \<le> f2 \<Longrightarrow> \<not> js_lt (round64 (c * f2)) (round64 (c * f1))"
  by (intro round64_not_lt mult_left_mono)

lemma round64_div_right: "0 < p \<Longrightarrow> a \<le> b \<Longrightarrow> \<not> js_lt (round64 (b / p)) (round64 (a / p))"
  by (intro round64_not_lt divide_right_mono) simp_all

lemma round64_div_left:
  "0 \<le> m \<Longrightarrow> 0 < p1 \<Longrightarrow> p1 \<le> p2 \<Longrightarrow> \<not> js_lt (round64 (m / p1)) (round64 (m / p2))"
  by (intro round64_not_lt divide_left_mono) simp_all

lemma round64_nonneg_sign: "0 \<le> x \<Longrightarrow> \<not> js_lt (round64 x) (Finite 0)"
  using round64_mono_not_gt [of 0 x] by (simp add: round64_zero js_gt_def)

lemma round64_nonpos_sign: "x \<le> 0 \<Longrightarrow> \<not> js_lt (Finite 0) (round64 x)"
  using round64_mono_not_gt [of x 0] by (simp add: round64_zero js_gt_def)

lemma mul_capital_mono:
  "\<not> js_gt c1 c2 \<Longrightarrow> 0 \<le> f \<Longrightarrow> \<not> js_gt (js_mul c1 (Finite f)) (js_mul c2 (Finite f))"
  by (cases c1; cases c2)
     (auto simp: js_gt_def signed_infinity_def not_less not_lt_PosInfinity not_lt_NegInfinity
        js_lt_NaN_right round64_mul_right)

lemma mul_fraction_mono:
  "\<not> js_lt c (Finite 0) \<Longrightarrow> 0 \<le> f1 \<Longrightarrow> f1 \<le> f2 \<Longrightarrow>
   \<not> js_gt (js_mul c (Finite f1)) (js_mul c (Finite f2))"
  by (cases c)
     (auto simp: js_gt_def signed_infinity_def not_less not_lt_PosInfinity not_lt_NegInfinity
        js_lt_NaN_right round64_mul_left)

lemma mul_nonneg:
  "\<not> js_lt c (Finite 0) \<Longrightarrow> 0 \<le> f \<Longrightarrow> \<not> js_lt (js_mul c (Finite f)) (Finite 0)"
  by (cases c) (auto simp: signed_infinity_def not_less round64_nonneg_sign)

lemma div_price_mono:
  "js_gt p (Finite 0) \<Longrightarrow> \<not> js_gt a b \<Longrightarrow> \<not> js_gt (js_div a p) (js_div b p)"
  by (cases p; cases a; cases b)
     (auto simp: js_gt_def signed_infinity_def not_less not_lt_PosInfinity not_lt_NegInfinity
        js_lt_NaN_right round64_div_right)

lemma div_price_antimono:
  "\<not> js_lt m (Finite 0) \<Longrightarrow> js_gt p1 (Finite 0) \<Longrightarrow> js_le p1 p2 \<Longrightarrow>
   \<not> js_gt (js_div m p2) (js_div m p1)"
  by (cases m; cases p1; cases p2)
     (auto simp: js_gt_def signed_infinity_def not_less not_lt_PosInfinity not_lt_NegInfinity
        js_lt_NaN_right round64_div_left round64_nonpos_sign round64_nonneg_sign)

text \<open>
  With a finite capital and a risk percentage that is a number, the size computed at a
  positive price is a number: the capital at risk is no larger than the capital, so it
  does not overflow.
\<close>

lemma sized_is_number:
  assumes "Number_isFinite cap" "risk \<noteq> NaN" "js_gt p (Finite 0)"
  shows "Number_toFixed 6 (js_div (js_mul cap (clamp (js_div risk (Finite 100)) (Finite 0) (Finite 1))) p) \<noteq> NaN"
proof -
  obtain c where c: "cap = Finite c" "is_double c" using assms(1) by (cases cap) simp_all
  obtain f where f: "clamp (js_div risk (Finite 100)) (Finite 0) (Finite 1) = Finite f" "0 \<le> f" "f \<le> 1"
    using clamp_unit_range [OF assms(2)] by blast
  have "\<bar>c * f\<bar> \<le> \<bar>c\<bar> * 1" unfolding abs_mult using f by (intro mult_left_mono) simp_all
  then have "\<bar>c * f\<bar> \<le> \<bar>c\<bar>" by simp
  with c(2) obtain m where m: "round64 (c * f) = Finite m"
    using round64_within_double by blast
  have "js_div (Finite m) p \<noteq> NaN"
    using assms(3) by (cases p) (simp_all add: js_gt_def round64_not_NaN)
  then show ?thesis
    by (simp add: c f m Number_toFixed_not_NaN)
qed

lemma rule_is_number:
  "Number_isFinite c \<Longrightarrow> k \<noteq> NaN \<Longrightarrow> position_size_rule c k p \<noteq> NaN"
  by (simp add: position_size_rule_def sized_is_number)

text \<open>
  So the rule of the position size never decreases in the capital, nor, for a capital
  that is not negative, in the risk percentage, and never increases in a positive
  price.
\<close>

lemma rule_capital_mono:
  assumes "\<not> js_gt c1 c2"
  shows "\<not> js_gt (position_size_rule c1 k p) (position_size_rule c2 k p)"
proof (cases "js_gt p (Finite 0)")
  case False
  then show ?thesis by (simp add: position_size_rule_def js_gt_def)
next
  case True
  from clamp_percent_cases [of k] show ?thesis
  proof
    assume "clamp (js_div k (Finite 100)) (Finite 0) (Finite 1) = NaN"
    with True show ?thesis by (simp add: position_size_rule_def js_gt_def js_mul_NaN_right)
  next
    assume "\<exists>f. clamp (js_div k (Finite 100)) (Finite 0) (Finite 1) = Finite f \<and> 0 \<le> f \<and> f \<le> 1"
    then obtain f where f: "clamp (js_div k (Finite 100)) (Finite 0) (Finite 1) = Finite f" "0 \<le> f"
      by blast
    from assms f(2) have "\<not> js_gt (js_mul c1 (Finite f)) (js_mul c2 (Finite f))"
      by (rule mul_capital_mono)
    with True have "\<not> js_gt (js_div (js_mul c1 (Finite f)) p) (js_div (js_mul c2 (Finite f)) p)"
      by (rule div_price_mono)
    then have "\<not> js_gt (Number_toFixed 6 (js_div (js_mul c1 (Finite f)) p))
                      (Number_toFixed 6 (js_div (js_mul c2 (Finite f)) p))"
      by (rule Number_toFixed_mono)
    with True f(1) show ?thesis by (simp add: position_size_rule_def)
  qed
qed

lemma rule_risk_mono:
  assumes "\<not> js_lt c (Finite 0)" "\<not> js_gt k1 k2"
  shows "\<not> js_gt (position_size_rule c k1 p) (position_size_rule c k2 p)"
proof (cases "js_gt p (Finite 0)")
  case False
  then show ?thesis by (simp add: position_size_rule_def js_gt_def)
next
  case True
  let ?f1 = "clamp (js_div k1 (Finite 100)) (Finite 0) (Finite 1)"
  let ?f2 = "clamp (js_div k2 (Finite 100)) (Finite 0) (Finite 1)"
  show ?thesis
  proof (cases "?f1 = NaN \<or> ?f2 = NaN")
    case True
    then have "position_size_rule c k1 p = NaN \<or> position_size_rule c k2 p = NaN"
      using \<open>js_gt p (Finite 0)\<close> by (auto simp: position_size_rule_def js_mul_NaN_right)
    then show ?thesis by (auto simp: js_gt_def js_lt_NaN_right)
  next
    case False
    with clamp_percent_cases [of k1] clamp_percent_cases [of k2]
    obtain f1 f2 where f: "?f1 = Finite f1" "0 \<le> f1" "?f2 = Finite f2"
      by blast
    from clamp_percent_mono [OF assms(2)] f have "f1 \<le> f2"
      by (simp add: js_gt_def)
    with assms(1) f(2) have "\<not> js_gt (js_mul c (Finite f1)) (js_mul c (Finite f2))"
      by (rule mul_fraction_mono)
    with True have "\<not> js_gt (js_div (js_mul c (Finite f1)) p) (js_div (js_mul c (Finite f2)) p)"
      by (rule div_price_mono)
    then have "\<not> js_gt (Number_toFixed 6 (js_div (js_mul c (Finite f1)) p))
                      (Number_toFixed 6 (js_div (js_mul c (Finite f2)) p))"
      by (rule Number_toFixed_mono)
    with True f show ?thesis by (simp add: position_size_rule_def)
  qed
qed

lemma rule_price_antimono:
  assumes "\<not> js_lt c (Finite 0)" "js_gt p1 (Finite 0)" "js_le p1 p2"
  shows "\<not> js_gt (position_size_rule c k p2) (position_size_rule c k p1)"
proof -
  have p2: "js_gt p2 (Finite 0)"
    using assms(2,3) by (cases p1; cases p2) (auto simp: js_gt_def)
  from clamp_percent_cases [of k] show ?thesis
  proof
    assume "clamp (js_div k (Finite 100)) (Finite 0) (Finite 1) = NaN"
    with assms(2) p2 show ?thesis by (simp add: position_size_rule_def js_gt_def js_mul_NaN_right)
  next
    assume "\<exists>f. clamp (js_div k (Finite 100)) (Finite 0) (Finite 1) = Finite f \<and> 0 \<le> f \<and> f \<le> 1"
    then obtain f where f: "clamp (js_div k (Finite 100)) (Finite 0) (Finite 1) = Finite f" "0 \<le> f"
      by blast
    from assms(1) f(2) have "\<not> js_lt (js_mul c (Finite f)) (Finite 0)"
      by (rule mul_nonneg)
    then have "\<not> js_gt (js_div (js_mul c (Finite f)) p2) (js_div (js_mul c (Finite f)) p1)"
      using assms(2,3) by (rule div_price_antimono)
    then have "\<not> js_gt (Number_toFixed 6 (js_div (js_mul c (Finite f)) p2))
                      (Number_toFixed 6 (js_div (js_mul c (Finite f)) p1))"
      by (rule Number_toFixed_mono)
    with assms(2) p2 f(1) show ?thesis by (simp add: position_size_rule_def)
  qed
qed

text \<open>
  The capitals 1000 and 2000 of the examples are finite numbers, and the quotients
  \<open>150 / 100\<close> and \<open>100 / 100\<close> are exact.
\<close>

lemma example_capital_finite:
  "Number_isFinite (capital (example_config 3 5 (Finite 1000) (Finite 2))) \<and>
   riskPercent (example_config 3 5 (Finite 1000) (Finite 2)) \<noteq> NaN"
  by code_simp

lemma example_capitals_finite: "Number_isFinite (Finite 1000) \<and> Number_isFinite (Finite 2000)"
  by code_simp

lemma round64_three_halves: "round64 (3 / 2) = Finite (3 / 2)"
  by code_simp

lemma round64_one: "round64 1 = Finite 1"
  by code_simp

section \<open>The signal evaluator\<close>

text \<open>
  The nested conditions of the engine and the five cases of the specification decide
  alike. The last case of the policy is an else; between two averages that are numbers
  (not NaN) it is taken exactly when one of the current averages is undefined or both
  are equal.
\<close>

lemma signal_policy_eq: "signal cf cs pf ps = crossover_policy cf cs pf ps"
  by (cases cf; cases cs; cases pf; cases ps)
     (simp_all add: signal_def crossover_policy_def all_defined_def defined_gt_def defined_lt_def
        defined_le_def defined_ge_def)

lemma policy_hold_iff:
  "fst (crossover_policy cf cs pf ps) = Hold \<longleftrightarrow> \<not> defined_gt cf cs \<and> \<not> defined_lt cf cs"
  by (simp add: crossover_policy_def)

lemma policy_hold_cases:
  assumes "cf \<noteq> Some NaN" "cs \<noteq> Some NaN"
  shows "fst (crossover_policy cf cs pf ps) = Hold \<longleftrightarrow> cf = None \<or> cs = None \<or> cf = cs"
  using assms not_lt_gt_iff_eq [of "the cf" "the cs"]
  by (cases cf; cases cs) (auto simp: policy_hold_iff defined_gt_def defined_lt_def)

text \<open>
  A flip from ``fast at most slow'' to ``fast above slow'' between the previous and the
  current index is a buy with the bullish reason, and the mirrored flip is a sell with
  the bearish reason.
\<close>

lemma policy_bullish_flip:
  "js_le pf ps \<Longrightarrow> js_gt lf ls \<Longrightarrow>
   crossover_policy (Some lf) (Some ls) (Some pf) (Some ps) = (Buy, BullishCrossover lf ls)"
  by (simp add: crossover_policy_def all_defined_def defined_le_def defined_gt_def)

lemma policy_bearish_flip:
  "js_ge pf ps \<Longrightarrow> js_lt lf ls \<Longrightarrow>
   crossover_policy (Some lf) (Some ls) (Some pf) (Some ps) = (Sell, BearishCrossover lf ls)"
  by (cases lf; cases ls)
     (simp_all add: crossover_policy_def all_defined_def defined_le_def defined_ge_def
        defined_gt_def defined_lt_def js_gt_def)

text \<open>
  Claim C1. On a non-empty candle sequence and positive periods, the action and the
  reason of the computation are those of the five-case policy at the last index: the
  current averages are the entries of the fast and slow series at the last index, the
  previous ones the entries just before (undefined when there is one candle only).
\<close>

theorem signal_follows_policy:
  "candles \<noteq> [] \<and> 0 < fastLength config \<and> 0 < slowLength config \<longrightarrow>
     (\<exists>r fast slow.
        simpleMovingAverage (map close candles) (fastLength config) = Inr fast \<and>
        simpleMovingAverage (map close candles) (slowLength config) = Inr slow \<and>
        evaluateStrategy candles config = Inr r \<and>
        (action r, reason r) =
          crossover_policy (fast ! (length candles - 1)) (slow ! (length candles - 1))
            (if 2 \<le> length candles then fast ! (length candles - 2) else None)
            (if 2 \<le> length candles then slow ! (length candles - 2) else None))"
proof
  assume a: "candles \<noteq> [] \<and> 0 < fastLength config \<and> 0 < slowLength config"
  let ?n = "length candles"
  let ?fast = "map (sma_entry (map close candles) (fastLength config)) [0..<?n]"
  let ?slow = "map (sma_entry (map close candles) (slowLength config)) [0..<?n]"
  have f: "simpleMovingAverage (map close candles) (fastLength config) = Inr ?fast"
    using a by (simp add: simpleMovingAverage_ok)
  have s: "simpleMovingAverage (map close candles) (slowLength config) = Inr ?slow"
    using a by (simp add: simpleMovingAverage_ok)
  from a have n: "0 < ?n" by simp
  obtain r where r: "evaluateStrategy candles config = Inr r"
    and "action r = fst (signal (?fast ! (?n - 1)) (?slow ! (?n - 1))
            (if 2 \<le> ?n then ?fast ! (?n - 2) else None)
            (if 2 \<le> ?n then ?slow ! (?n - 2) else None))"
    and "reason r = snd (signal (?fast ! (?n - 1)) (?slow ! (?n - 1))
            (if 2 \<le> ?n then ?fast ! (?n - 2) else None)
            (if 2 \<le> ?n then ?slow ! (?n - 2) else None))"
    using a n by (simp add: evaluateStrategy_valid Let_def)
  then have "(action r, reason r) = crossover_policy (?fast ! (?n - 1)) (?slow ! (?n - 1))
            (if 2 \<le> ?n then ?fast ! (?n - 2) else None)
            (if 2 \<le> ?n then ?slow ! (?n - 2) else None)"
    by (simp add: signal_policy_eq)
  with f s r show "\<exists>r fast slow.
        simpleMovingAverage (map close candles) (fastLength config) = Inr fast \<and>
        simpleMovingAverage (map close candles) (slowLength config) = Inr slow \<and>
        evaluateStrategy candles config = Inr r \<and>
        (action r, reason r) =
          crossover_policy (fast ! (length candles - 1)) (slow ! (length candles - 1))
            (if 2 \<le> length candles then fast ! (length candles - 2) else None)
            (if 2 \<le> length candles then slow ! (length candles - 2) else None)"
    by blast
qed

text \<open>
  The closes 3, 1, 5 with the periods 1 and 2: the fast average goes from 1 (below the
  slow 2) to 5 (above the slow 3), a bullish crossover.
\<close>

lemma bullish_fast: "simpleMovingAverage (map close (flat_candles [3, 1, 5])) 1 = Inr [Some (Finite 3), Some (Finite 1), Some (Finite 5)]"
  by code_simp

lemma bullish_slow: "simpleMovingAverage (map close (flat_candles [3, 1, 5])) 2 = Inr [None, Some (Finite 2), Some (Finite 3)]"
  by code_simp

theorem signal_follows_policy_witness:
  "flat_candles [3, 1, 5] \<noteq> [] \<and>
   0 < fastLength (example_config 1 2 (Finite 1000) (Finite 2)) \<and>
   0 < slowLength (example_config 1 2 (Finite 1000) (Finite 2)) \<and>
   (\<exists>r. evaluateStrategy (flat_candles [3, 1, 5]) (example_config 1 2 (Finite 1000) (Finite 2)) = Inr r \<and>
      action r = Buy \<and> reason r = BullishCrossover (Finite 5) (Finite 3))"
proof -
  let ?cs = "flat_candles [3, 1, 5]"
  let ?cfg = "example_config 1 2 (Finite 1000) (Finite 2)"
  have h: "?cs \<noteq> [] \<and> 0 < fastLength ?cfg \<and> 0 < slowLength ?cfg"
    by (simp add: flat_candles_def example_config_def)
  have len: "length ?cs = 3" by (simp add: flat_candles_def)
  have fl: "fastLength ?cfg = 1" and sl: "slowLength ?cfg = 2" by (simp_all add: example_config_def)
  from signal_follows_policy [of ?cs ?cfg] h
  obtain r where "evaluateStrategy ?cs ?cfg = Inr r"
    and "(action r, reason r) =
          crossover_policy (Some (Finite 5)) (Some (Finite 3)) (Some (Finite 1)) (Some (Finite 2))"
    unfolding len fl sl bullish_fast bullish_slow by auto
  then show ?thesis using h
    by (simp add: crossover_policy_def all_defined_def defined_gt_def defined_le_def js_gt_def)
qed

section \<open>The moving average series\<close>

text \<open>
  Claim C2, as amended. For a sequence of length \<open>N\<close> and a period \<open>P\<close> with
  \<open>1 \<le> P \<le> N\<close>, the moving average is a sequence of length \<open>N\<close> whose entry \<open>i\<close> is null
  exactly when \<open>i < P - 1\<close>, and is otherwise the mean in binary64 of the \<open>P\<close> values at
  the indices \<open>i - P + 1\<close> to \<open>i\<close>: their sum, added from the left starting at 0, over
  \<open>P\<close>, every addition and the division rounded to the nearest double. That entry is
  the exact arithmetic mean whenever the values are finite, no partial sum needs
  rounding and the mean is a double. The claim that it is always the exact mean fails,
  since a sum or a quotient that is not a double is rounded. On a non-empty candle
  sequence and positive periods, the series \<open>fastMA\<close> and \<open>slowMA\<close> of the computation are
  as long as the candle sequence.
\<close>

theorem sma_spec:
  "(1 \<le> P \<and> P \<le> int (length vs) \<longrightarrow>
     (\<exists>ma. simpleMovingAverage vs P = Inr ma \<and> length ma = length vs \<and>
        (\<forall>i<length vs.
           (ma ! i = None \<longleftrightarrow> int i < P - 1) \<and>
           (P - 1 \<le> int i \<longrightarrow>
              ma ! i = Some (window_mean (map (\<lambda>k. vs ! k) [i + 1 - nat P..<i + 1])) \<and>
              (\<forall>rs. map (\<lambda>k. vs ! k) [i + 1 - nat P..<i + 1] = map Finite rs \<and>
                    exact_sums 0 rs \<and> is_double (sum_list rs / real (length rs)) \<longrightarrow>
                    ma ! i = Some (Finite (sum_list rs / real (length rs)))))))) \<and>
   (candles \<noteq> [] \<and> 0 < fastLength config \<and> 0 < slowLength config \<longrightarrow>
     (\<exists>r. evaluateStrategy candles config = Inr r \<and>
        length (fastMA r) = length candles \<and> length (slowMA r) = length candles))"
proof (intro conjI impI)
  assume a: "1 \<le> P \<and> P \<le> int (length vs)"
  let ?ma = "map (sma_entry vs P) [0..<length vs]"
  let ?w = "\<lambda>i. map (\<lambda>k. vs ! k) [i + 1 - nat P..<i + 1]"
  have "simpleMovingAverage vs P = Inr ?ma"
    using a by (simp add: simpleMovingAverage_ok)
  moreover have "length ?ma = length vs" by simp
  moreover have "(?ma ! i = None \<longleftrightarrow> int i < P - 1) \<and>
           (P - 1 \<le> int i \<longrightarrow>
              ?ma ! i = Some (window_mean (?w i)) \<and>
              (\<forall>rs. ?w i = map Finite rs \<and> exact_sums 0 rs \<and>
                    is_double (sum_list rs / real (length rs)) \<longrightarrow>
                    ?ma ! i = Some (Finite (sum_list rs / real (length rs)))))"
    if "i < length vs" for i
  proof (cases "int i < P - 1")
    case True
    with that show ?thesis by (simp add: sma_entry_def)
  next
    case False
    then have "P \<le> int i + 1" by simp
    with a that have e: "sma_entry vs P i = Some (window_mean (?w i))"
      by (intro sma_entry_mean) simp_all
    have "?ma ! i = Some (Finite (sum_list rs / real (length rs)))"
      if h: "?w i = map Finite rs \<and> exact_sums 0 rs \<and> is_double (sum_list rs / real (length rs))" for rs
    proof -
      have "length (?w i) = length rs" using h by simp
      moreover have "0 < nat P" using a by simp
      then have "0 < length (?w i)" by simp
      ultimately have "rs \<noteq> []" by auto
      with h have "window_mean (map Finite rs) = Finite (sum_list rs / real (length rs))"
        by (intro window_mean_exact) simp_all
      with e h \<open>i < length vs\<close> show ?thesis by simp
    qed
    with False that e show ?thesis by simp
  qed
  ultimately show "\<exists>ma. simpleMovingAverage vs P = Inr ma \<and> length ma = length vs \<and>
        (\<forall>i<length vs.
           (ma ! i = None \<longleftrightarrow> int i < P - 1) \<and>
           (P - 1 \<le> int i \<longrightarrow>
              ma ! i = Some (window_mean (map (\<lambda>k. vs ! k) [i + 1 - nat P..<i + 1])) \<and>
              (\<forall>rs. map (\<lambda>k. vs ! k) [i + 1 - nat P..<i + 1] = map Finite rs \<and>
                    exact_sums 0 rs \<and> is_double (sum_list rs / real (length rs)) \<longrightarrow>
                    ma ! i = Some (Finite (sum_list rs / real (length rs))))))"
    by blast
next
  assume "candles \<noteq> [] \<and> 0 < fastLength config \<and> 0 < slowLength config"
  then show "\<exists>r. evaluateStrategy candles config = Inr r \<and>
        length (fastMA r) = length candles \<and> length (slowMA r) = length candles"
    by (simp add: evaluateStrategy_valid Let_def)
qed

text \<open>
  The values \<open>2^53 = 9007199254740992\<close> and 1 with the period 2, both doubles: the sum
  \<open>2^53 + 1\<close> is not a double and rounds to \<open>2^53\<close>, so the entry at index 1 is
  \<open>2^52 = 4503599627370496\<close>, half a unit below the arithmetic mean.
\<close>

lemma lost_unit_eval:
  "simpleMovingAverage [Finite 9007199254740992, Finite 1] 2 =
     Inr [None, Some (Finite 4503599627370496)]"
  by code_simp

lemma lost_unit_doubles: "is_double 9007199254740992 \<and> is_double 1"
  by code_simp

theorem sma_exact_mean_counterexample:
  "is_double 9007199254740992 \<and> is_double 1 \<and>
   simpleMovingAverage [Finite 9007199254740992, Finite 1] 2 =
     Inr [None, Some (Finite 4503599627370496)] \<and>
   (9007199254740992 + 1) / 2 \<noteq> (4503599627370496::real)"
  using lost_unit_eval lost_unit_doubles by simp

text \<open>
  The values 1 to 5 with period 3: entry 1 is null and entry 4 is the mean 4 of 3, 4
  and 5, whose partial sums 3, 7 and 12 are exact; with the periods 3 and 5 both series
  of the computation have five entries.
\<close>

lemma small_sums_exact: "exact_sums 0 [3, 4, 5] \<and> is_double (sum_list [3, 4, 5] / real (length [3, 4, 5::real]))"
  by code_simp

theorem sma_spec_witness:
  "(1::int) \<le> 3 \<and> 3 \<le> int (length (map Finite [1, 2, 3, 4, 5])) \<and>
   exact_sums 0 [3, 4, 5] \<and> is_double (sum_list [3, 4, 5] / real (length [3, 4, 5::real])) \<and>
   (\<exists>ma. simpleMovingAverage (map Finite [1, 2, 3, 4, 5]) 3 = Inr ma \<and> length ma = 5 \<and>
      ma ! 1 = None \<and> ma ! 4 = Some (Finite 4)) \<and>
   (\<exists>r. evaluateStrategy (flat_candles [1, 2, 3, 4, 5]) (example_config 3 5 (Finite 1000) (Finite 2)) = Inr r \<and>
      length (fastMA r) = 5 \<and> length (slowMA r) = 5)"
proof -
  let ?vs = "map Finite [1, 2, 3, 4, 5]"
  let ?cs = "flat_candles [1, 2, 3, 4, 5]"
  let ?cfg = "example_config 3 5 (Finite 1000) (Finite 2)"
  note t = sma_spec [of 3 ?vs ?cs ?cfg]
  have h1: "(1::int) \<le> 3 \<and> 3 \<le> int (length ?vs)" by simp
  from t h1 obtain ma where ma: "simpleMovingAverage ?vs 3 = Inr ma" "length ma = length ?vs"
    and entries: "\<forall>i<length ?vs. (ma ! i = None \<longleftrightarrow> int i < 3 - 1) \<and>
           (3 - 1 \<le> int i \<longrightarrow>
              ma ! i = Some (window_mean (map (\<lambda>k. ?vs ! k) [i + 1 - nat 3..<i + 1])) \<and>
              (\<forall>rs. map (\<lambda>k. ?vs ! k) [i + 1 - nat 3..<i + 1] = map Finite rs \<and>
                    exact_sums 0 rs \<and> is_double (sum_list rs / real (length rs)) \<longrightarrow>
                    ma ! i = Some (Finite (sum_list rs / real (length rs)))))"
    by blast
  have i1: "1 < length ?vs" and i4: "4 < length ?vs" by simp_all
  from entries i1 have "(ma ! 1 = None) = (int 1 < 3 - 1)" by blast
  then have none: "ma ! 1 = None" by simp
  have p: "(3::int) - 1 \<le> int 4" by simp
  from entries i4 p
  have "\<forall>rs. map (\<lambda>k. ?vs ! k) [4 + 1 - nat 3..<4 + 1] = map Finite rs \<and>
                    exact_sums 0 rs \<and> is_double (sum_list rs / real (length rs)) \<longrightarrow>
                    ma ! 4 = Some (Finite (sum_list rs / real (length rs)))"
    by blast
  then have inst: "map (\<lambda>k. ?vs ! k) [4 + 1 - nat 3..<4 + 1] = map Finite [3, 4, 5] \<and>
                    exact_sums 0 [3, 4, 5] \<and> is_double (sum_list [3, 4, 5] / real (length [3, 4, 5::real])) \<longrightarrow>
                    ma ! 4 = Some (Finite (sum_list [3, 4, 5] / real (length [3, 4, 5::real])))"
    by blast
  have w: "map (\<lambda>k. ?vs ! k) [4 + 1 - nat 3..<4 + 1] = map Finite [3, 4, 5]"
    by (simp add: upt_conv_Cons)
  from inst w small_sums_exact
  have "ma ! 4 = Some (Finite (sum_list [3, 4, 5] / real (length [3, 4, 5::real])))" by blast
  then have mean: "ma ! 4 = Some (Finite 4)" by simp
  have len5: "length ?vs = 5" by simp
  have first: "\<exists>ma. simpleMovingAverage ?vs 3 = Inr ma \<and> length ma = 5 \<and>
      ma ! 1 = None \<and> ma ! 4 = Some (Finite 4)"
    using ma none mean unfolding len5 by blast
  have second: "\<exists>r. evaluateStrategy ?cs ?cfg = Inr r \<and> length (fastMA r) = 5 \<and> length (slowMA r) = 5"
  proof -
    have h: "?cs \<noteq> [] \<and> 0 < fastLength ?cfg \<and> 0 < slowLength ?cfg"
      by (simp add: flat_candles_def example_config_def)
    have len: "length ?cs = 5"
      by (simp add: flat_candles_def)
    from t h show ?thesis unfolding len by blast
  qed
  from h1 small_sums_exact first second show ?thesis by blast
qed

section \<open>The position size\<close>

text \<open>
  Claim C3. On a non-empty candle sequence and positive periods, the position size is
  capital times the clamped risk fraction over the latest close, rounded to six
  decimals, when the latest close is strictly positive, and 0 when it is at most 0; a
  risk of 150 percent gives the position size of 100 percent. The product, the quotient
  and the risk fraction are those of binary64, and ``rounded to six decimals'' is the
  double nearest to a multiple of \<open>10^-6\<close> that is at most half a unit of the sixth
  decimal away from the quotient.
\<close>

theorem positionSize_formula:
  "candles \<noteq> [] \<and> 0 < fastLength config \<and> 0 < slowLength config \<longrightarrow>
     (\<exists>r. evaluateStrategy candles config = Inr r \<and>
        (js_gt (close (last candles)) (Finite 0) \<longrightarrow>
           positionSize r = Number_toFixed 6 (js_div (js_mul (capital config)
                           (clamp (js_div (riskPercent config) (Finite 100)) (Finite 0) (Finite 1)))
                   (close (last candles))) \<and>
           rounded_to 6 (js_div (js_mul (capital config)
                           (clamp (js_div (riskPercent config) (Finite 100)) (Finite 0) (Finite 1)))
                   (close (last candles))) (positionSize r)) \<and>
        (js_le (close (last candles)) (Finite 0) \<longrightarrow> positionSize r = Finite 0)) \<and>
     (\<exists>r150 r100.
        evaluateStrategy candles (config\<lparr>riskPercent := Finite 150\<rparr>) = Inr r150 \<and>
        evaluateStrategy candles (config\<lparr>riskPercent := Finite 100\<rparr>) = Inr r100 \<and>
        positionSize r150 = positionSize r100)"
proof
  assume a: "candles \<noteq> [] \<and> 0 < fastLength config \<and> 0 < slowLength config"
  let ?q = "(js_div (js_mul (capital config)
                           (clamp (js_div (riskPercent config) (Finite 100)) (Finite 0) (Finite 1)))
                   (close (last candles)))"
  from a obtain r where r: "evaluateStrategy candles config = Inr r"
    and p: "positionSize r = position_size_rule (capital config) (riskPercent config) (close (last candles))"
    using positionSize_rule [of candles config] by blast
  have pos: "js_gt (close (last candles)) (Finite 0) \<longrightarrow>
      positionSize r = Number_toFixed 6 ?q \<and> rounded_to 6 ?q (positionSize r)"
    using p by (simp add: position_size_rule_def Number_toFixed_rounded)
  have nonpos: "js_le (close (last candles)) (Finite 0) \<longrightarrow> positionSize r = Finite 0"
    using p by (simp add: position_size_rule_def le_zero_not_gt)
  from a obtain r150 where r150: "evaluateStrategy candles (config\<lparr>riskPercent := Finite 150\<rparr>) = Inr r150"
    and p150: "positionSize r150 = position_size_rule (capital config) (Finite 150) (close (last candles))"
    using positionSize_rule [of candles "config\<lparr>riskPercent := Finite 150\<rparr>"] by auto
  from a obtain r100 where r100: "evaluateStrategy candles (config\<lparr>riskPercent := Finite 100\<rparr>) = Inr r100"
    and p100: "positionSize r100 = position_size_rule (capital config) (Finite 100) (close (last candles))"
    using positionSize_rule [of candles "config\<lparr>riskPercent := Finite 100\<rparr>"] by auto
  have "positionSize r150 = positionSize r100"
    unfolding p150 p100 by (simp add: position_size_rule_def round64_three_halves round64_one clamp_def js_gt_def)
  with r pos nonpos r150 r100
  show "(\<exists>r. evaluateStrategy candles config = Inr r \<and>
        (js_gt (close (last candles)) (Finite 0) \<longrightarrow>
           positionSize r = Number_toFixed 6 ?q \<and> rounded_to 6 ?q (positionSize r)) \<and>
        (js_le (close (last candles)) (Finite 0) \<longrightarrow> positionSize r = Finite 0)) \<and>
     (\<exists>r150 r100.
        evaluateStrategy candles (config\<lparr>riskPercent := Finite 150\<rparr>) = Inr r150 \<and>
        evaluateStrategy candles (config\<lparr>riskPercent := Finite 100\<rparr>) = Inr r100 \<and>
        positionSize r150 = positionSize r100)"
    by blast
qed

text \<open>
  Capital 1000 at 150 percent and a latest close of 3: the fraction is clamped to 1 and
  the size is 333.333333. Capital 1000 at 33 percent and a latest close of 6400: the
  quotient of binary64 lies just below 0.0515625, so the size is 0.051562. A latest
  close of 0 gives the size 0.
\<close>

lemma clamped_third_size:
  "Number_toFixed 6
     (js_div (js_mul (Finite 1000) (clamp (js_div (Finite 150) (Finite 100)) (Finite 0) (Finite 1)))
             (Finite 3)) = js_literal (333333333 / 1000000)"
  by code_simp

lemma below_tie_size:
  "Number_toFixed 6
     (js_div (js_mul (Finite 1000) (clamp (js_div (Finite 33) (Finite 100)) (Finite 0) (Finite 1)))
             (Finite 6400)) = js_literal (51562 / 1000000)"
  by code_simp

theorem positionSize_formula_witness:
  "flat_candles [3] \<noteq> [] \<and>
   0 < fastLength (example_config 3 5 (Finite 1000) (Finite 150)) \<and>
   0 < slowLength (example_config 3 5 (Finite 1000) (Finite 150)) \<and>
   js_gt (close (last (flat_candles [3]))) (Finite 0) \<and>
   (\<exists>r. evaluateStrategy (flat_candles [3]) (example_config 3 5 (Finite 1000) (Finite 150)) = Inr r \<and>
      positionSize r = js_literal (333333333 / 1000000)) \<and>
   js_gt (close (last (flat_candles [6400]))) (Finite 0) \<and>
   (\<exists>r. evaluateStrategy (flat_candles [6400]) (example_config 3 5 (Finite 1000) (Finite 33)) = Inr r \<and>
      positionSize r = js_literal (51562 / 1000000)) \<and>
   js_le (close (last (flat_candles [0]))) (Finite 0) \<and>
   (\<exists>r. evaluateStrategy (flat_candles [0]) (example_config 3 5 (Finite 1000) (Finite 150)) = Inr r \<and>
      positionSize r = Finite 0)"
proof -
  let ?c150 = "example_config 3 5 (Finite 1000) (Finite 150)"
  let ?c33 = "example_config 3 5 (Finite 1000) (Finite 33)"
  have cfg: "0 < fastLength ?c150 \<and> 0 < slowLength ?c150 \<and> 0 < fastLength ?c33 \<and> 0 < slowLength ?c33"
    by (simp add: example_config_def)
  have c3: "flat_candles [3] \<noteq> [] \<and> js_gt (close (last (flat_candles [3]))) (Finite 0)"
    by (simp add: flat_candles_def flat_candle_def js_gt_def)
  have c6400: "flat_candles [6400] \<noteq> [] \<and> js_gt (close (last (flat_candles [6400]))) (Finite 0)"
    by (simp add: flat_candles_def flat_candle_def js_gt_def)
  have c0: "flat_candles [0] \<noteq> [] \<and> js_le (close (last (flat_candles [0]))) (Finite 0)"
    by (simp add: flat_candles_def flat_candle_def)
  have v3: "capital ?c150 = Finite 1000" "riskPercent ?c150 = Finite 150"
      "close (last (flat_candles [3])) = Finite 3"
    by (simp_all add: example_config_def flat_candles_def flat_candle_def)
  have v6400: "capital ?c33 = Finite 1000" "riskPercent ?c33 = Finite 33"
      "close (last (flat_candles [6400])) = Finite 6400"
    by (simp_all add: example_config_def flat_candles_def flat_candle_def)
  from positionSize_formula [of "flat_candles [3]" ?c150] cfg c3
  have "\<exists>r. evaluateStrategy (flat_candles [3]) ?c150 = Inr r \<and>
      positionSize r = js_literal (333333333 / 1000000)"
    unfolding v3 clamped_third_size by blast
  moreover from positionSize_formula [of "flat_candles [6400]" ?c33] cfg c6400
  have "\<exists>r. evaluateStrategy (flat_candles [6400]) ?c33 = Inr r \<and>
      positionSize r = js_literal (51562 / 1000000)"
    unfolding v6400 below_tie_size by blast
  moreover from positionSize_formula [of "flat_candles [0]" ?c150] cfg c0
  have "\<exists>r. evaluateStrategy (flat_candles [0]) ?c150 = Inr r \<and> positionSize r = Finite 0"
    by blast
  ultimately show ?thesis using cfg c3 c6400 c0 by blast
qed

section \<open>Stop-loss and take-profit on a hold\<close>

text \<open>
  Claim C4, as amended. The claim that a hold leaves stop-loss and take-profit absent
  fails: the engine computes them for every action. On a hold the stop-loss is the
  highest high of the trailing window times the double 1.01, and the take-profit the
  latest close times the double 0.97, both products rounded to binary64 and then to two
  decimals; each is present exactly when that value is finite, and absent exactly when
  it is NaN or an infinity.
\<close>

theorem hold_stops_computed:
  "candles \<noteq> [] \<and> 0 < fastLength config \<and> 0 < slowLength config \<longrightarrow>
     (\<exists>r. evaluateStrategy candles config = Inr r \<and>
        (action r = Hold \<longrightarrow>
           stopLoss r =
             (let s = Number_toFixed 2 (js_mul (Math_max (map high (drop (length candles - nat (slowLength config)) candles)))
                     (js_literal (101 / 100)))
              in if Number_isFinite s then Some s else None) \<and>
           takeProfit r =
             (let t = Number_toFixed 2 (js_mul (close (last candles)) (js_literal (97 / 100)))
              in if Number_isFinite t then Some t else None) \<and>
           rounded_to 2 (js_mul (Math_max (map high (drop (length candles - nat (slowLength config)) candles)))
                     (js_literal (101 / 100))) (Number_toFixed 2 (js_mul (Math_max (map high (drop (length candles - nat (slowLength config)) candles)))
                     (js_literal (101 / 100)))) \<and>
           rounded_to 2 (js_mul (close (last candles)) (js_literal (97 / 100))) (Number_toFixed 2 (js_mul (close (last candles)) (js_literal (97 / 100)))) \<and>
           (stopLoss r = None \<longleftrightarrow> (\<forall>x. Number_toFixed 2 (js_mul (Math_max (map high (drop (length candles - nat (slowLength config)) candles)))
                     (js_literal (101 / 100))) \<noteq> Finite x)) \<and>
           (takeProfit r = None \<longleftrightarrow> (\<forall>x. Number_toFixed 2 (js_mul (close (last candles)) (js_literal (97 / 100))) \<noteq> Finite x))))"
proof
  assume "candles \<noteq> [] \<and> 0 < fastLength config \<and> 0 < slowLength config"
  then obtain r where r: "evaluateStrategy candles config = Inr r"
    and s: "stopLoss r =
      (let s = (if action r = Buy
                then Number_toFixed 2
                       (js_mul (Math_min (map low (drop (length candles - nat (slowLength config)) candles)))
                               (js_literal (99 / 100)))
                else Number_toFixed 2
                       (js_mul (Math_max (map high (drop (length candles - nat (slowLength config)) candles)))
                               (js_literal (101 / 100))))
       in if Number_isFinite s then Some s else None)"
    and t: "takeProfit r =
      (let t = (if action r = Buy
                then Number_toFixed 2 (js_mul (close (last candles)) (js_literal (103 / 100)))
                else Number_toFixed 2 (js_mul (close (last candles)) (js_literal (97 / 100))))
       in if Number_isFinite t then Some t else None)"
    using evaluateStrategy_stops [of candles config] by blast
  have h: "(action r = Hold \<longrightarrow>
           stopLoss r =
             (let s = Number_toFixed 2 (js_mul (Math_max (map high (drop (length candles - nat (slowLength config)) candles)))
                     (js_literal (101 / 100)))
              in if Number_isFinite s then Some s else None) \<and>
           takeProfit r =
             (let t = Number_toFixed 2 (js_mul (close (last candles)) (js_literal (97 / 100)))
              in if Number_isFinite t then Some t else None) \<and>
           rounded_to 2 (js_mul (Math_max (map high (drop (length candles - nat (slowLength config)) candles)))
                     (js_literal (101 / 100))) (Number_toFixed 2 (js_mul (Math_max (map high (drop (length candles - nat (slowLength config)) candles)))
                     (js_literal (101 / 100)))) \<and>
           rounded_to 2 (js_mul (close (last candles)) (js_literal (97 / 100))) (Number_toFixed 2 (js_mul (close (last candles)) (js_literal (97 / 100)))) \<and>
           (stopLoss r = None \<longleftrightarrow> (\<forall>x. Number_toFixed 2 (js_mul (Math_max (map high (drop (length candles - nat (slowLength config)) candles)))
                     (js_literal (101 / 100))) \<noteq> Finite x)) \<and>
           (takeProfit r = None \<longleftrightarrow> (\<forall>x. Number_toFixed 2 (js_mul (close (last candles)) (js_literal (97 / 100))) \<noteq> Finite x)))"
    using s t by (simp add: Number_toFixed_rounded Let_def Number_isFinite_toFixed)
  show "\<exists>r. evaluateStrategy candles config = Inr r \<and>
        (action r = Hold \<longrightarrow>
           stopLoss r =
             (let s = Number_toFixed 2 (js_mul (Math_max (map high (drop (length candles - nat (slowLength config)) candles)))
                     (js_literal (101 / 100)))
              in if Number_isFinite s then Some s else None) \<and>
           takeProfit r =
             (let t = Number_toFixed 2 (js_mul (close (last candles)) (js_literal (97 / 100)))
              in if Number_isFinite t then Some t else None) \<and>
           rounded_to 2 (js_mul (Math_max (map high (drop (length candles - nat (slowLength config)) candles)))
                     (js_literal (101 / 100))) (Number_toFixed 2 (js_mul (Math_max (map high (drop (length candles - nat (slowLength config)) candles)))
                     (js_literal (101 / 100)))) \<and>
           rounded_to 2 (js_mul (close (last candles)) (js_literal (97 / 100))) (Number_toFixed 2 (js_mul (close (last candles)) (js_literal (97 / 100)))) \<and>
           (stopLoss r = None \<longleftrightarrow> (\<forall>x. Number_toFixed 2 (js_mul (Math_max (map high (drop (length candles - nat (slowLength config)) candles)))
                     (js_literal (101 / 100))) \<noteq> Finite x)) \<and>
           (takeProfit r = None \<longleftrightarrow> (\<forall>x. Number_toFixed 2 (js_mul (close (last candles)) (js_literal (97 / 100))) \<noteq> Finite x)))"
    by (rule exI [of _ r], rule conjI, rule r, rule h)
qed

text \<open>
  Two candles at the price 100 with the periods 3 and 5: both averages are undefined,
  the action is hold, and the computation carries the stop-loss 101 and the
  take-profit 97.
\<close>

lemma short_history_eval:
  "evaluateStrategy (flat_candles [100, 100]) (example_config 3 5 (Finite 1000) (Finite 2)) =
   Inr \<lparr>action = Hold, reason = NoCrossover, latestPrice = Finite 100,
         positionSize = js_literal (1 / 5), stopLoss = Some (Finite 101),
         takeProfit = Some (Finite 97), fastMA = [None, None], slowMA = [None, None]\<rparr>"
  by code_simp

theorem hold_stops_absent_counterexample:
  "evaluateStrategy (flat_candles [100, 100]) (example_config 3 5 (Finite 1000) (Finite 2)) =
   Inr \<lparr>action = Hold, reason = NoCrossover, latestPrice = Finite 100,
         positionSize = js_literal (1 / 5), stopLoss = Some (Finite 101),
         takeProfit = Some (Finite 97), fastMA = [None, None], slowMA = [None, None]\<rparr>"
  by (rule short_history_eval)

text \<open>
  Two candles at the price 2.5 with the periods 3 and 5, a hold: the products of
  binary64 lie just below 2.525 and 2.425, so the stop-loss is 2.52 and the take-profit
  2.42.
\<close>

lemma hold_below_tie_eval:
  "evaluateStrategy (flat_candles [5 / 2, 5 / 2]) (example_config 3 5 (Finite 1000) (Finite 2)) =
   Inr \<lparr>action = Hold, reason = NoCrossover, latestPrice = Finite (5 / 2),
         positionSize = Finite 8, stopLoss = Some (js_literal (252 / 100)),
         takeProfit = Some (js_literal (242 / 100)), fastMA = [None, None], slowMA = [None, None]\<rparr>"
  by code_simp

lemma hold_below_tie_stop:
  "(let s = Number_toFixed 2
              (js_mul (Math_max (map high (drop (length (flat_candles [5 / 2, 5 / 2]) -
                          nat (slowLength (example_config 3 5 (Finite 1000) (Finite 2))))
                        (flat_candles [5 / 2, 5 / 2]))))
                      (js_literal (101 / 100)))
    in if Number_isFinite s then Some s else None) = Some (js_literal (252 / 100))"
  by code_simp

lemma hold_below_tie_take:
  "(let t = Number_toFixed 2 (js_mul (close (last (flat_candles [5 / 2, 5 / 2]))) (js_literal (97 / 100)))
    in if Number_isFinite t then Some t else None) = Some (js_literal (242 / 100))"
  by code_simp

theorem hold_stops_computed_witness:
  "flat_candles [5 / 2, 5 / 2] \<noteq> [] \<and>
   0 < fastLength (example_config 3 5 (Finite 1000) (Finite 2)) \<and>
   0 < slowLength (example_config 3 5 (Finite 1000) (Finite 2)) \<and>
   (\<exists>r. evaluateStrategy (flat_candles [5 / 2, 5 / 2]) (example_config 3 5 (Finite 1000) (Finite 2)) = Inr r \<and>
      action r = Hold \<and> stopLoss r = Some (js_literal (252 / 100)) \<and>
      takeProfit r = Some (js_literal (242 / 100)))"
proof -
  let ?cs = "flat_candles [5 / 2, 5 / 2]"
  let ?cfg = "example_config 3 5 (Finite 1000) (Finite 2)"
  have h: "?cs \<noteq> [] \<and> 0 < fastLength ?cfg \<and> 0 < slowLength ?cfg"
    by (simp add: flat_candles_def example_config_def)
  from hold_stops_computed [of ?cs ?cfg] h
  obtain r where r: "evaluateStrategy ?cs ?cfg = Inr r"
    and imp: "action r = Hold \<longrightarrow>
           stopLoss r =
             (let s = Number_toFixed 2
                        (js_mul (Math_max (map high (drop (length ?cs - nat (slowLength ?cfg)) ?cs)))
                                (js_literal (101 / 100)))
              in if Number_isFinite s then Some s else None) \<and>
           takeProfit r =
             (let t = Number_toFixed 2 (js_mul (close (last ?cs)) (js_literal (97 / 100)))
              in if Number_isFinite t then Some t else None)"
    by blast
  from r have hold: "action r = Hold"
    unfolding hold_below_tie_eval by auto
  from imp hold have "stopLoss r = Some (js_literal (252 / 100)) \<and> takeProfit r = Some (js_literal (242 / 100))"
    unfolding hold_below_tie_stop hold_below_tie_take by blast
  with r hold h show ?thesis by blast
qed

section \<open>The order builder\<close>

text \<open>
  Claim C5. \<open>buildOrder\<close> returns no order exactly when the action is hold or the
  position size is at most 0; otherwise the order is a market order whose side is the
  action, whose size is the position size, whose price is the latest price, and whose
  stop-loss and take-profit are those of the computation, absent when they are absent.
\<close>

theorem buildOrder_contract:
  "(buildOrder c = None \<longleftrightarrow> action c = Hold \<or> js_le (positionSize c) (Finite 0)) \<and>
   (\<not> (action c = Hold \<or> js_le (positionSize c) (Finite 0)) \<longrightarrow>
      buildOrder c =
        Some \<lparr>side = action c, order_type = Market, order_size = positionSize c,
              price = latestPrice c, order_stopLoss = stopLoss c,
              order_takeProfit = takeProfit c\<rparr>)"
  by (simp add: buildOrder_def)

text \<open>
  A buy of size 4 at the price 5 gives the order; the same sizes on hold give none.
\<close>

theorem buildOrder_contract_witness:
  "\<not> (Buy = Hold \<or> js_le (Finite 4) (Finite 0)) \<and>
   buildOrder \<lparr>action = Buy, reason = ContinuationAbove, latestPrice = Finite 5,
               positionSize = Finite 4, stopLoss = Some (js_literal (99 / 100)),
               takeProfit = Some (js_literal (103 / 20)), fastMA = [], slowMA = []\<rparr> =
     Some \<lparr>side = Buy, order_type = Market, order_size = Finite 4, price = Finite 5,
           order_stopLoss = Some (js_literal (99 / 100)), order_takeProfit = Some (js_literal (103 / 20))\<rparr> \<and>
   buildOrder \<lparr>action = Hold, reason = NoCrossover, latestPrice = Finite 5,
               positionSize = Finite 4, stopLoss = None, takeProfit = None,
               fastMA = [], slowMA = []\<rparr> = None"
  using buildOrder_contract [of "\<lparr>action = Buy, reason = ContinuationAbove, latestPrice = Finite 5,
               positionSize = Finite 4, stopLoss = Some (js_literal (99 / 100)),
               takeProfit = Some (js_literal (103 / 20)), fastMA = [], slowMA = []\<rparr>"]
    buildOrder_contract [of "\<lparr>action = Hold, reason = NoCrossover, latestPrice = Finite 5,
               positionSize = Finite 4, stopLoss = None, takeProfit = None,
               fastMA = [], slowMA = []\<rparr>"]
  by simp

section \<open>Failures\<close>

text \<open>
  Claim C6. A period \<open>P \<le> 0\<close> makes the moving average fail with \<open>InvalidPeriod\<close> on
  every input; hence the evaluation of a non-empty candle sequence with a non-positive
  \<open>fastLength\<close> or \<open>slowLength\<close> fails as a whole with that error and returns no
  computation.
\<close>

theorem invalid_period_aborts:
  "(P \<le> 0 \<longrightarrow> simpleMovingAverage vs P = Inl InvalidPeriod) \<and>
   (candles \<noteq> [] \<and> (fastLength config \<le> 0 \<or> slowLength config \<le> 0) \<longrightarrow>
      evaluateStrategy candles config = Inl InvalidPeriod)"
proof (intro conjI impI)
  assume "P \<le> 0"
  then show "simpleMovingAverage vs P = Inl InvalidPeriod"
    by (simp add: simpleMovingAverage_def)
next
  assume a: "candles \<noteq> [] \<and> (fastLength config \<le> 0 \<or> slowLength config \<le> 0)"
  show "evaluateStrategy candles config = Inl InvalidPeriod"
  proof (cases "fastLength config \<le> 0")
    case True
    with a show ?thesis
      by (simp add: evaluateStrategy_def simpleMovingAverage_def)
  next
    case False
    with a have "slowLength config \<le> 0" by simp
    with a show ?thesis
      by (simp add: evaluateStrategy_def simpleMovingAverage_def Let_def)
  qed
qed

text \<open>
  Period 0 on three values, and three candles with the slow period \<open>-1\<close>.
\<close>

theorem invalid_period_aborts_witness:
  "(0::int) \<le> 0 \<and> simpleMovingAverage (map Finite [1, 2, 3]) 0 = Inl InvalidPeriod \<and>
   flat_candles [1, 2, 3] \<noteq> [] \<and> slowLength (example_config 3 (- 1) (Finite 1000) (Finite 2)) \<le> 0 \<and>
   evaluateStrategy (flat_candles [1, 2, 3]) (example_config 3 (- 1) (Finite 1000) (Finite 2)) =
     Inl InvalidPeriod"
  using invalid_period_aborts [of 0 "map Finite [1, 2, 3]" "flat_candles [1, 2, 3]"
      "example_config 3 (- 1) (Finite 1000) (Finite 2)"]
  by (simp add: flat_candles_def example_config_def)

text \<open>
  Claim C7. On an empty candle sequence the evaluation fails with \<open>NoData\<close>, whatever the
  configuration, and returns no computation.
\<close>

theorem empty_candles_NoData: "evaluateStrategy [] config = Inl NoData"
  by (simp add: evaluateStrategy_def)

text \<open>
  The empty sequence with a configuration whose periods are valid.
\<close>

theorem empty_candles_NoData_witness:
  "evaluateStrategy [] (example_config 3 5 (Finite 1000) (Finite 2)) = Inl NoData"
  using empty_candles_NoData [of "example_config 3 5 (Finite 1000) (Finite 2)"] .

section \<open>A latest close that is not positive\<close>

text \<open>
  Claim C8, as amended. With a latest close of at most 0 and valid periods the
  evaluation does not fail and the position size is 0. The claim that stop-loss and
  take-profit are omitted fails: they are computed by the formulas of the action as for
  any other price (a buy: the lowest low of the trailing window times the double 0.99,
  and the latest close times the double 1.03; otherwise the highest high times the
  double 1.01, and the latest close times the double 0.97; each product rounded to
  binary64 and then to two decimals), and each is absent exactly when its value is NaN
  or an infinity. So a stop-loss or take-profit that is present is a finite number.
\<close>

theorem nonpositive_price_absorbed:
  "candles \<noteq> [] \<and> 0 < fastLength config \<and> 0 < slowLength config \<and>
   js_le (close (last candles)) (Finite 0) \<longrightarrow>
     (\<exists>r. evaluateStrategy candles config = Inr r \<and>
        positionSize r = Finite 0 \<and>
        stopLoss r =
          (let s = Number_toFixed 2 (if action r = Buy
                then js_mul (Math_min (map low (drop (length candles - nat (slowLength config)) candles)))
                            (js_literal (99 / 100))
                else js_mul (Math_max (map high (drop (length candles - nat (slowLength config)) candles)))
                            (js_literal (101 / 100)))
           in if Number_isFinite s then Some s else None) \<and>
        takeProfit r =
          (let t = Number_toFixed 2 (if action r = Buy
                then js_mul (close (last candles)) (js_literal (103 / 100))
                else js_mul (close (last candles)) (js_literal (97 / 100)))
           in if Number_isFinite t then Some t else None) \<and>
        rounded_to 2 (if action r = Buy
                then js_mul (Math_min (map low (drop (length candles - nat (slowLength config)) candles)))
                            (js_literal (99 / 100))
                else js_mul (Math_max (map high (drop (length candles - nat (slowLength config)) candles)))
                            (js_literal (101 / 100))) (Number_toFixed 2 (if action r = Buy
                then js_mul (Math_min (map low (drop (length candles - nat (slowLength config)) candles)))
                            (js_literal (99 / 100))
                else js_mul (Math_max (map high (drop (length candles - nat (slowLength config)) candles)))
                            (js_literal (101 / 100)))) \<and>
        rounded_to 2 (if action r = Buy
                then js_mul (close (last candles)) (js_literal (103 / 100))
                else js_mul (close (last candles)) (js_literal (97 / 100))) (Number_toFixed 2 (if action r = Buy
                then js_mul (close (last candles)) (js_literal (103 / 100))
                else js_mul (close (last candles)) (js_literal (97 / 100)))) \<and>
        (stopLoss r = None \<longleftrightarrow> (\<forall>x. Number_toFixed 2 (if action r = Buy
                then js_mul (Math_min (map low (drop (length candles - nat (slowLength config)) candles)))
                            (js_literal (99 / 100))
                else js_mul (Math_max (map high (drop (length candles - nat (slowLength config)) candles)))
                            (js_literal (101 / 100))) \<noteq> Finite x)) \<and>
        (takeProfit r = None \<longleftrightarrow> (\<forall>x. Number_toFixed 2 (if action r = Buy
                then js_mul (close (last candles)) (js_literal (103 / 100))
                else js_mul (close (last candles)) (js_literal (97 / 100))) \<noteq> Finite x)) \<and>
        (\<forall>x. stopLoss r = Some x \<longrightarrow> Number_isFinite x) \<and>
        (\<forall>x. takeProfit r = Some x \<longrightarrow> Number_isFinite x))"
proof
  assume a: "candles \<noteq> [] \<and> 0 < fastLength config \<and> 0 < slowLength config \<and>
   js_le (close (last candles)) (Finite 0)"
  from a obtain r where r: "evaluateStrategy candles config = Inr r"
    and p: "positionSize r =
      (if js_gt (close (last candles)) (Finite 0)
       then Number_toFixed 6
              (js_div (js_mul (capital config)
                              (clamp (js_div (riskPercent config) (Finite 100)) (Finite 0) (Finite 1)))
                      (close (last candles)))
       else Finite 0)"
    and s: "stopLoss r =
      (let s = (if action r = Buy
                then Number_toFixed 2
                       (js_mul (Math_min (map low (drop (length candles - nat (slowLength config)) candles)))
                               (js_literal (99 / 100)))
                else Number_toFixed 2
                       (js_mul (Math_max (map high (drop (length candles - nat (slowLength config)) candles)))
                               (js_literal (101 / 100))))
       in if Number_isFinite s then Some s else None)"
    and t: "takeProfit r =
      (let t = (if action r = Buy
                then Number_toFixed 2 (js_mul (close (last candles)) (js_literal (103 / 100)))
                else Number_toFixed 2 (js_mul (close (last candles)) (js_literal (97 / 100))))
       in if Number_isFinite t then Some t else None)"
    using evaluateStrategy_stops [of candles config] by blast
  from a p have zero: "positionSize r = Finite 0"
    by (simp add: le_zero_not_gt)
  from s have s': "stopLoss r =
          (let s = Number_toFixed 2 (if action r = Buy
                then js_mul (Math_min (map low (drop (length candles - nat (slowLength config)) candles)))
                            (js_literal (99 / 100))
                else js_mul (Math_max (map high (drop (length candles - nat (slowLength config)) candles)))
                            (js_literal (101 / 100)))
           in if Number_isFinite s then Some s else None)"
    by (simp add: Let_def)
  from t have t': "takeProfit r =
          (let t = Number_toFixed 2 (if action r = Buy
                then js_mul (close (last candles)) (js_literal (103 / 100))
                else js_mul (close (last candles)) (js_literal (97 / 100)))
           in if Number_isFinite t then Some t else None)"
    by (simp add: Let_def)
  from s have sf: "\<forall>x. stopLoss r = Some x \<longrightarrow> Number_isFinite x"
    by (auto simp: Let_def split: if_splits)
  from t have tf: "\<forall>x. takeProfit r = Some x \<longrightarrow> Number_isFinite x"
    by (auto simp: Let_def split: if_splits)
  from s' have sn: "stopLoss r = None \<longleftrightarrow> (\<forall>x. Number_toFixed 2 (if action r = Buy
                then js_mul (Math_min (map low (drop (length candles - nat (slowLength config)) candles)))
                            (js_literal (99 / 100))
                else js_mul (Math_max (map high (drop (length candles - nat (slowLength config)) candles)))
                            (js_literal (101 / 100))) \<noteq> Finite x)"
    by (simp add: Let_def Number_isFinite_toFixed)
  from t' have tn: "takeProfit r = None \<longleftrightarrow> (\<forall>x. Number_toFixed 2 (if action r = Buy
                then js_mul (close (last candles)) (js_literal (103 / 100))
                else js_mul (close (last candles)) (js_literal (97 / 100))) \<noteq> Finite x)"
    by (simp add: Let_def Number_isFinite_toFixed)
  note facts = r zero s' t' sn tn sf tf Number_toFixed_rounded [of 2 "(if action r = Buy
                then js_mul (Math_min (map low (drop (length candles - nat (slowLength config)) candles)))
                            (js_literal (99 / 100))
                else js_mul (Math_max (map high (drop (length candles - nat (slowLength config)) candles)))
                            (js_literal (101 / 100)))"] Number_toFixed_rounded [of 2 "(if action r = Buy
                then js_mul (close (last candles)) (js_literal (103 / 100))
                else js_mul (close (last candles)) (js_literal (97 / 100)))"]
  show "\<exists>r. evaluateStrategy candles config = Inr r \<and>
        positionSize r = Finite 0 \<and>
        stopLoss r =
          (let s = Number_toFixed 2 (if action r = Buy
                then js_mul (Math_min (map low (drop (length candles - nat (slowLength config)) candles)))
                            (js_literal (99 / 100))
                else js_mul (Math_max (map high (drop (length candles - nat (slowLength config)) candles)))
                            (js_literal (101 / 100)))
           in if Number_isFinite s then Some s else None) \<and>
        takeProfit r =
          (let t = Number_toFixed 2 (if action r = Buy
                then js_mul (close (last candles)) (js_literal (103 / 100))
                else js_mul (close (last candles)) (js_literal (97 / 100)))
           in if Number_isFinite t then Some t else None) \<and>
        rounded_to 2 (if action r = Buy
                then js_mul (Math_min (map low (drop (length candles - nat (slowLength config)) candles)))
                            (js_literal (99 / 100))
                else js_mul (Math_max (map high (drop (length candles - nat (slowLength config)) candles)))
                            (js_literal (101 / 100))) (Number_toFixed 2 (if action r = Buy
                then js_mul (Math_min (map low (drop (length candles - nat (slowLength config)) candles)))
                            (js_literal (99 / 100))
                else js_mul (Math_max (map high (drop (length candles - nat (slowLength config)) candles)))
                            (js_literal (101 / 100)))) \<and>
        rounded_to 2 (if action r = Buy
                then js_mul (close (last candles)) (js_literal (103 / 100))
                else js_mul (close (last candles)) (js_literal (97 / 100))) (Number_toFixed 2 (if action r = Buy
                then js_mul (close (last candles)) (js_literal (103 / 100))
                else js_mul (close (last candles)) (js_literal (97 / 100)))) \<and>
        (stopLoss r = None \<longleftrightarrow> (\<forall>x. Number_toFixed 2 (if action r = Buy
                then js_mul (Math_min (map low (drop (length candles - nat (slowLength config)) candles)))
                            (js_literal (99 / 100))
                else js_mul (Math_max (map high (drop (length candles - nat (slowLength config)) candles)))
                            (js_literal (101 / 100))) \<noteq> Finite x)) \<and>
        (takeProfit r = None \<longleftrightarrow> (\<forall>x. Number_toFixed 2 (if action r = Buy
                then js_mul (close (last candles)) (js_literal (103 / 100))
                else js_mul (close (last candles)) (js_literal (97 / 100))) \<noteq> Finite x)) \<and>
        (\<forall>x. stopLoss r = Some x \<longrightarrow> Number_isFinite x) \<and>
        (\<forall>x. takeProfit r = Some x \<longrightarrow> Number_isFinite x)"
    by (intro exI [of _ r] conjI) (rule facts)+
qed

text \<open>
  The closes 5, 4, 3, 2, 1, 0 with the periods 3 and 5: the action is sell, the latest
  close is 0, the size is 0, and the computation carries the stop-loss 4.04 (the
  highest high 4 of the last five candles times 1.01) and the take-profit 0.
\<close>

lemma falling_to_zero_eval:
  "evaluateStrategy (flat_candles [5, 4, 3, 2, 1, 0]) (example_config 3 5 (Finite 1000) (Finite 2)) =
   Inr \<lparr>action = Sell, reason = ContinuationBelow, latestPrice = Finite 0,
         positionSize = Finite 0, stopLoss = Some (js_literal (404 / 100)),
         takeProfit = Some (Finite 0),
         fastMA = [None, None, Some (Finite 4), Some (Finite 3), Some (Finite 2), Some (Finite 1)],
         slowMA = [None, None, None, None, Some (Finite 3), Some (Finite 2)]\<rparr>"
  by code_simp

theorem nonpositive_price_stops_counterexample:
  "js_le (close (last (flat_candles [5, 4, 3, 2, 1, 0]))) (Finite 0) \<and>
   evaluateStrategy (flat_candles [5, 4, 3, 2, 1, 0]) (example_config 3 5 (Finite 1000) (Finite 2)) =
   Inr \<lparr>action = Sell, reason = ContinuationBelow, latestPrice = Finite 0,
         positionSize = Finite 0, stopLoss = Some (js_literal (404 / 100)),
         takeProfit = Some (Finite 0),
         fastMA = [None, None, Some (Finite 4), Some (Finite 3), Some (Finite 2), Some (Finite 1)],
         slowMA = [None, None, None, None, Some (Finite 3), Some (Finite 2)]\<rparr>"
  using falling_to_zero_eval by (simp add: flat_candles_def flat_candle_def)

lemma stop_literal_finite: "Number_isFinite (js_literal (404 / 100))"
  by code_simp

theorem nonpositive_price_absorbed_witness:
  "flat_candles [5, 4, 3, 2, 1, 0] \<noteq> [] \<and>
   0 < fastLength (example_config 3 5 (Finite 1000) (Finite 2)) \<and>
   0 < slowLength (example_config 3 5 (Finite 1000) (Finite 2)) \<and>
   js_le (close (last (flat_candles [5, 4, 3, 2, 1, 0]))) (Finite 0) \<and>
   (\<exists>r. evaluateStrategy (flat_candles [5, 4, 3, 2, 1, 0]) (example_config 3 5 (Finite 1000) (Finite 2)) = Inr r \<and>
      positionSize r = Finite 0 \<and>
      stopLoss r = Some (js_literal (404 / 100)) \<and> Number_isFinite (js_literal (404 / 100)))"
proof -
  let ?cs = "flat_candles [5, 4, 3, 2, 1, 0]"
  let ?cfg = "example_config 3 5 (Finite 1000) (Finite 2)"
  have h: "?cs \<noteq> [] \<and> 0 < fastLength ?cfg \<and> 0 < slowLength ?cfg \<and> js_le (close (last ?cs)) (Finite 0)"
    by (simp add: flat_candles_def flat_candle_def example_config_def)
  from nonpositive_price_absorbed [of ?cs ?cfg] h
  obtain r where r: "evaluateStrategy ?cs ?cfg = Inr r" and z: "positionSize r = Finite 0"
    and fin: "\<forall>x. stopLoss r = Some x \<longrightarrow> Number_isFinite x"
    by blast
  from r have s: "stopLoss r = Some (js_literal (404 / 100))"
    unfolding falling_to_zero_eval by auto
  with fin have "Number_isFinite (js_literal (404 / 100))" by blast
  with r z s h show ?thesis by blast
qed

section \<open>Monotonicity of the position size\<close>

text \<open>
  Claim C9, as amended. With the candles fixed, the position size never decreases when
  the capital grows; for a capital that is not negative it never decreases when the
  risk percentage grows; and between two candle sequences that differ in the latest
  close only, for a capital that is not negative and a smaller latest close that is
  strictly positive, it never increases when the latest close grows. As stated the
  claim fails: a latest close of 0 gives the size 0, below the size at any positive
  close, and with a negative capital the size falls as the risk percentage grows.
  ``Never decreases'' is the order \<open>\<le>\<close> of numbers whenever the capital is finite and
  the risk percentage is not NaN.
\<close>

theorem positionSize_monotone:
  "(candles \<noteq> [] \<and> 0 < fastLength config \<and> 0 < slowLength config \<and> js_le c1 c2 \<longrightarrow>
      (\<exists>r1 r2. evaluateStrategy candles (config\<lparr>capital := c1\<rparr>) = Inr r1 \<and>
         evaluateStrategy candles (config\<lparr>capital := c2\<rparr>) = Inr r2 \<and>
         \<not> js_gt (positionSize r1) (positionSize r2) \<and>
         (Number_isFinite c1 \<and> Number_isFinite c2 \<and> riskPercent config \<noteq> NaN \<longrightarrow>
            js_le (positionSize r1) (positionSize r2)))) \<and>
   (candles \<noteq> [] \<and> 0 < fastLength config \<and> 0 < slowLength config \<and>
    \<not> js_lt (capital config) (Finite 0) \<and> js_le k1 k2 \<longrightarrow>
      (\<exists>r1 r2. evaluateStrategy candles (config\<lparr>riskPercent := k1\<rparr>) = Inr r1 \<and>
         evaluateStrategy candles (config\<lparr>riskPercent := k2\<rparr>) = Inr r2 \<and>
         \<not> js_gt (positionSize r1) (positionSize r2) \<and>
         (Number_isFinite (capital config) \<longrightarrow> js_le (positionSize r1) (positionSize r2)))) \<and>
   (0 < fastLength config \<and> 0 < slowLength config \<and>
    \<not> js_lt (capital config) (Finite 0) \<and> js_gt p1 (Finite 0) \<and> js_le p1 p2 \<longrightarrow>
      (\<exists>r1 r2. evaluateStrategy (cs @ [k\<lparr>close := p1\<rparr>]) config = Inr r1 \<and>
         evaluateStrategy (cs @ [k\<lparr>close := p2\<rparr>]) config = Inr r2 \<and>
         \<not> js_gt (positionSize r2) (positionSize r1) \<and>
         (Number_isFinite (capital config) \<and> riskPercent config \<noteq> NaN \<longrightarrow>
            js_le (positionSize r2) (positionSize r1))))"
proof (intro conjI impI)
  assume a: "candles \<noteq> [] \<and> 0 < fastLength config \<and> 0 < slowLength config \<and> js_le c1 c2"
  let ?p = "close (last candles)"
  let ?k = "riskPercent config"
  from a obtain r1 where r1: "evaluateStrategy candles (config\<lparr>capital := c1\<rparr>) = Inr r1"
    and s1: "positionSize r1 = position_size_rule c1 ?k ?p"
    using positionSize_rule [of candles "config\<lparr>capital := c1\<rparr>"] by auto
  from a obtain r2 where r2: "evaluateStrategy candles (config\<lparr>capital := c2\<rparr>) = Inr r2"
    and s2: "positionSize r2 = position_size_rule c2 ?k ?p"
    using positionSize_rule [of candles "config\<lparr>capital := c2\<rparr>"] by auto
  from a have "\<not> js_gt c1 c2" by (simp add: le_not_gt)
  then have ng: "\<not> js_gt (positionSize r1) (positionSize r2)"
    unfolding s1 s2 by (rule rule_capital_mono)
  have "js_le (positionSize r1) (positionSize r2)"
    if "Number_isFinite c1 \<and> Number_isFinite c2 \<and> ?k \<noteq> NaN"
    using ng that unfolding s1 s2 by (intro not_gt_le rule_is_number) simp_all
  with r1 r2 ng show "\<exists>r1 r2. evaluateStrategy candles (config\<lparr>capital := c1\<rparr>) = Inr r1 \<and>
         evaluateStrategy candles (config\<lparr>capital := c2\<rparr>) = Inr r2 \<and>
         \<not> js_gt (positionSize r1) (positionSize r2) \<and>
         (Number_isFinite c1 \<and> Number_isFinite c2 \<and> riskPercent config \<noteq> NaN \<longrightarrow>
            js_le (positionSize r1) (positionSize r2))"
    by blast
next
  assume a: "candles \<noteq> [] \<and> 0 < fastLength config \<and> 0 < slowLength config \<and>
    \<not> js_lt (capital config) (Finite 0) \<and> js_le k1 k2"
  let ?p = "close (last candles)"
  let ?c = "capital config"
  from a obtain r1 where r1: "evaluateStrategy candles (config\<lparr>riskPercent := k1\<rparr>) = Inr r1"
    and s1: "positionSize r1 = position_size_rule ?c k1 ?p"
    using positionSize_rule [of candles "config\<lparr>riskPercent := k1\<rparr>"] by auto
  from a obtain r2 where r2: "evaluateStrategy candles (config\<lparr>riskPercent := k2\<rparr>) = Inr r2"
    and s2: "positionSize r2 = position_size_rule ?c k2 ?p"
    using positionSize_rule [of candles "config\<lparr>riskPercent := k2\<rparr>"] by auto
  from a have k: "\<not> js_gt k1 k2" and kn: "k1 \<noteq> NaN" "k2 \<noteq> NaN"
    by (auto simp: le_not_gt js_le_NaN_right)
  from a k have ng: "\<not> js_gt (positionSize r1) (positionSize r2)"
    unfolding s1 s2 by (intro rule_risk_mono) simp_all
  have "js_le (positionSize r1) (positionSize r2)" if "Number_isFinite ?c"
    using ng that kn unfolding s1 s2 by (intro not_gt_le rule_is_number) simp_all
  with r1 r2 ng show "\<exists>r1 r2. evaluateStrategy candles (config\<lparr>riskPercent := k1\<rparr>) = Inr r1 \<and>
         evaluateStrategy candles (config\<lparr>riskPercent := k2\<rparr>) = Inr r2 \<and>
         \<not> js_gt (positionSize r1) (positionSize r2) \<and>
         (Number_isFinite (capital config) \<longrightarrow> js_le (positionSize r1) (positionSize r2))"
    by blast
next
  assume a: "0 < fastLength config \<and> 0 < slowLength config \<and>
    \<not> js_lt (capital config) (Finite 0) \<and> js_gt p1 (Finite 0) \<and> js_le p1 p2"
  let ?c = "capital config"
  let ?k = "riskPercent config"
  from a obtain r1 where r1: "evaluateStrategy (cs @ [k\<lparr>close := p1\<rparr>]) config = Inr r1"
    and s1: "positionSize r1 = position_size_rule ?c ?k p1"
    using positionSize_rule [of "cs @ [k\<lparr>close := p1\<rparr>]" config] by auto
  from a obtain r2 where r2: "evaluateStrategy (cs @ [k\<lparr>close := p2\<rparr>]) config = Inr r2"
    and s2: "positionSize r2 = position_size_rule ?c ?k p2"
    using positionSize_rule [of "cs @ [k\<lparr>close := p2\<rparr>]" config] by auto
  from a have ng: "\<not> js_gt (positionSize r2) (positionSize r1)"
    unfolding s1 s2 by (intro rule_price_antimono) simp_all
  have "js_le (positionSize r2) (positionSize r1)" if "Number_isFinite ?c \<and> ?k \<noteq> NaN"
    using ng that unfolding s1 s2 by (intro not_gt_le rule_is_number) simp_all
  with r1 r2 ng show "\<exists>r1 r2. evaluateStrategy (cs @ [k\<lparr>close := p1\<rparr>]) config = Inr r1 \<and>
         evaluateStrategy (cs @ [k\<lparr>close := p2\<rparr>]) config = Inr r2 \<and>
         \<not> js_gt (positionSize r2) (positionSize r1) \<and>
         (Number_isFinite (capital config) \<and> riskPercent config \<noteq> NaN \<longrightarrow>
            js_le (positionSize r2) (positionSize r1))"
    by blast
qed

text \<open>
  Capital 1000 at 2 percent, one candle: the latest close 0 gives the size 0 and the
  latest close 1 gives the size 20. Capital \<open>-1000\<close> at the close 5: the risk 1 percent
  gives the size \<open>-2\<close>, the risk 2 percent the size \<open>-4\<close>.
\<close>

lemma zero_close_size:
  "map_sum id positionSize
     (evaluateStrategy [(flat_candle 0 0)\<lparr>close := Finite 0\<rparr>] (example_config 3 5 (Finite 1000) (Finite 2))) =
   Inr (Finite 0)"
  by code_simp

lemma unit_close_size:
  "map_sum id positionSize
     (evaluateStrategy [(flat_candle 0 0)\<lparr>close := Finite 1\<rparr>] (example_config 3 5 (Finite 1000) (Finite 2))) =
   Inr (Finite 20)"
  by code_simp

lemma negative_capital_sizes:
  "map_sum id positionSize
     (evaluateStrategy (flat_candles [5]) (example_config 3 5 (Finite (- 1000)) (Finite 1))) =
   Inr (Finite (- 2)) \<and>
   map_sum id positionSize
     (evaluateStrategy (flat_candles [5]) (example_config 3 5 (Finite (- 1000)) (Finite 2))) =
   Inr (Finite (- 4))"
  by code_simp

theorem positionSize_monotone_counterexample:
  "js_le (Finite 0) (Finite 1) \<and>
   map_sum id positionSize
     (evaluateStrategy [(flat_candle 0 0)\<lparr>close := Finite 0\<rparr>] (example_config 3 5 (Finite 1000) (Finite 2))) =
   Inr (Finite 0) \<and>
   map_sum id positionSize
     (evaluateStrategy [(flat_candle 0 0)\<lparr>close := Finite 1\<rparr>] (example_config 3 5 (Finite 1000) (Finite 2))) =
   Inr (Finite 20) \<and>
   js_lt (Finite 0) (Finite 20) \<and>
   js_le (Finite 1) (Finite 2) \<and>
   map_sum id positionSize
     (evaluateStrategy (flat_candles [5]) (example_config 3 5 (Finite (- 1000)) (Finite 1))) =
   Inr (Finite (- 2)) \<and>
   map_sum id positionSize
     (evaluateStrategy (flat_candles [5]) (example_config 3 5 (Finite (- 1000)) (Finite 2))) =
   Inr (Finite (- 4)) \<and>
   js_gt (Finite (- 2)) (Finite (- 4))"
  using zero_close_size unit_close_size negative_capital_sizes by (simp add: js_gt_def)

text \<open>
  One candle at the close 5, capital 1000 at 2 percent: the capital 1000 against 2000,
  the risk 1 against 2 percent, and the latest close 5 against 10.
\<close>

theorem positionSize_monotone_witness:
  "flat_candles [5] \<noteq> [] \<and>
   0 < fastLength (example_config 3 5 (Finite 1000) (Finite 2)) \<and>
   0 < slowLength (example_config 3 5 (Finite 1000) (Finite 2)) \<and>
   \<not> js_lt (capital (example_config 3 5 (Finite 1000) (Finite 2))) (Finite 0) \<and>
   Number_isFinite (capital (example_config 3 5 (Finite 1000) (Finite 2))) \<and>
   riskPercent (example_config 3 5 (Finite 1000) (Finite 2)) \<noteq> NaN \<and>
   js_le (Finite 1000) (Finite 2000) \<and>
   (\<exists>r1 r2.
      evaluateStrategy (flat_candles [5]) ((example_config 3 5 (Finite 1000) (Finite 2))\<lparr>capital := Finite 1000\<rparr>) = Inr r1 \<and>
      evaluateStrategy (flat_candles [5]) ((example_config 3 5 (Finite 1000) (Finite 2))\<lparr>capital := Finite 2000\<rparr>) = Inr r2 \<and>
      js_le (positionSize r1) (positionSize r2)) \<and>
   js_le (Finite 1) (Finite 2) \<and>
   (\<exists>r1 r2.
      evaluateStrategy (flat_candles [5]) ((example_config 3 5 (Finite 1000) (Finite 2))\<lparr>riskPercent := Finite 1\<rparr>) = Inr r1 \<and>
      evaluateStrategy (flat_candles [5]) ((example_config 3 5 (Finite 1000) (Finite 2))\<lparr>riskPercent := Finite 2\<rparr>) = Inr r2 \<and>
      js_le (positionSize r1) (positionSize r2)) \<and>
   js_gt (Finite 5) (Finite 0) \<and> js_le (Finite 5) (Finite 10) \<and>
   (\<exists>r1 r2.
      evaluateStrategy ([] @ [(flat_candle 0 5)\<lparr>close := Finite 5\<rparr>]) (example_config 3 5 (Finite 1000) (Finite 2)) = Inr r1 \<and>
      evaluateStrategy ([] @ [(flat_candle 0 5)\<lparr>close := Finite 10\<rparr>]) (example_config 3 5 (Finite 1000) (Finite 2)) = Inr r2 \<and>
      js_le (positionSize r2) (positionSize r1))"
proof -
  let ?cs = "flat_candles [5]"
  let ?cfg = "example_config 3 5 (Finite 1000) (Finite 2)"
  have h: "?cs \<noteq> [] \<and> 0 < fastLength ?cfg \<and> 0 < slowLength ?cfg"
    by (simp add: flat_candles_def example_config_def)
  have "\<not> js_lt (capital ?cfg) (Finite 0)"
    by (simp add: example_config_def)
  with example_capital_finite
  have c: "\<not> js_lt (capital ?cfg) (Finite 0) \<and> Number_isFinite (capital ?cfg) \<and> riskPercent ?cfg \<noteq> NaN"
    by blast
  note d = example_capitals_finite
  have o: "js_le (Finite 1000) (Finite 2000) \<and> js_le (Finite 1) (Finite 2) \<and>
      js_gt (Finite 5) (Finite 0) \<and> js_le (Finite 5) (Finite 10)"
    by (simp add: js_gt_def)
  note t = positionSize_monotone [of ?cs ?cfg "Finite 1000" "Finite 2000" "Finite 1" "Finite 2"
      "Finite 5" "Finite 10" "[]" "flat_candle 0 5"]
  from t h c o have "\<exists>r1 r2.
      evaluateStrategy ?cs (?cfg\<lparr>capital := Finite 1000\<rparr>) = Inr r1 \<and>
      evaluateStrategy ?cs (?cfg\<lparr>capital := Finite 2000\<rparr>) = Inr r2 \<and>
      js_le (positionSize r1) (positionSize r2)"
    using d by blast
  moreover from t h c o have "\<exists>r1 r2.
      evaluateStrategy ?cs (?cfg\<lparr>riskPercent := Finite 1\<rparr>) = Inr r1 \<and>
      evaluateStrategy ?cs (?cfg\<lparr>riskPercent := Finite 2\<rparr>) = Inr r2 \<and>
      js_le (positionSize r1) (positionSize r2)"
    by blast
  moreover from t h c o have "\<exists>r1 r2.
      evaluateStrategy ([] @ [(flat_candle 0 5)\<lparr>close := Finite 5\<rparr>]) ?cfg = Inr r1 \<and>
      evaluateStrategy ([] @ [(flat_candle 0 5)\<lparr>close := Finite 10\<rparr>]) ?cfg = Inr r2 \<and>
      js_le (positionSize r2) (positionSize r1)"
    by blast
  ultimately show ?thesis using h c o by blast
qed

section \<open>Orders built from an evaluation\<close>

text \<open>
  Claim C10. On a non-empty candle sequence and valid periods, with a capital and a
  risk percentage as the data model has them (a capital of at least 10 and a risk
  percentage from 0.1 to 100, of which the theorem uses that the capital is a finite
  number and the risk percentage is not NaN): a strictly positive position size implies
  a strictly positive latest close, and every order that \<open>buildOrder\<close> makes of the
  computation has a strictly positive size, a strictly positive price, and the side buy
  or sell, never hold.
\<close>

theorem order_is_positive:
  "candles \<noteq> [] \<and> 0 < fastLength config \<and> 0 < slowLength config \<and>
   Number_isFinite (capital config) \<and> riskPercent config \<noteq> NaN \<longrightarrow>
     (\<exists>r. evaluateStrategy candles config = Inr r \<and>
        (js_gt (positionSize r) (Finite 0) \<longrightarrow> js_gt (close (last candles)) (Finite 0)) \<and>
        (\<forall>ord. buildOrder r = Some ord \<longrightarrow>
           js_gt (order_size ord) (Finite 0) \<and> js_gt (price ord) (Finite 0) \<and>
           (side ord = Buy \<or> side ord = Sell)))"
proof
  assume a: "candles \<noteq> [] \<and> 0 < fastLength config \<and> 0 < slowLength config \<and>
   Number_isFinite (capital config) \<and> riskPercent config \<noteq> NaN"
  let ?p = "close (last candles)"
  let ?sized = "Number_toFixed 6
              (js_div (js_mul (capital config)
                              (clamp (js_div (riskPercent config) (Finite 100)) (Finite 0) (Finite 1)))
                      ?p)"
  from a obtain r where r: "evaluateStrategy candles config = Inr r"
    and lp: "latestPrice r = ?p"
    and ps: "positionSize r = (if js_gt ?p (Finite 0) then ?sized else Finite 0)"
    using evaluateStrategy_stops [of candles config] by blast
  have one: "js_gt (positionSize r) (Finite 0) \<longrightarrow> js_gt ?p (Finite 0)"
    using ps by (auto simp: js_gt_def split: if_splits)
  have two: "js_gt (order_size ord) (Finite 0) \<and> js_gt (price ord) (Finite 0) \<and>
           (side ord = Buy \<or> side ord = Sell)"
    if b: "buildOrder r = Some ord" for ord
  proof -
    from b have nh: "action r \<noteq> Hold" and nle: "\<not> js_le (positionSize r) (Finite 0)"
      and ord: "ord = \<lparr>side = action r, order_type = Market, order_size = positionSize r,
              price = latestPrice r, order_stopLoss = stopLoss r,
              order_takeProfit = takeProfit r\<rparr>"
      by (auto simp: buildOrder_def split: if_splits)
    from nle ps have pos: "js_gt ?p (Finite 0)"
      by (auto split: if_splits)
    from nh have sd: "action r = Buy \<or> action r = Sell"
      by (cases "action r") simp_all
    from a pos have "?sized \<noteq> NaN" by (intro sized_is_number) simp_all
    with ps pos have "positionSize r \<noteq> NaN" by simp
    then have "js_gt (positionSize r) (Finite 0)" using nle by (rule not_le_zero_gt)
    with pos sd show ?thesis by (simp add: ord lp)
  qed
  from r one two show "\<exists>r. evaluateStrategy candles config = Inr r \<and>
        (js_gt (positionSize r) (Finite 0) \<longrightarrow> js_gt (close (last candles)) (Finite 0)) \<and>
        (\<forall>ord. buildOrder r = Some ord \<longrightarrow>
           js_gt (order_size ord) (Finite 0) \<and> js_gt (price ord) (Finite 0) \<and>
           (side ord = Buy \<or> side ord = Sell))"
    by blast
qed

text \<open>
  The closes 1 to 5 with the periods 3 and 5 and the capital 1000 at 2 percent: a buy
  of the size 4 at the price 5.
\<close>

lemma rising_eval:
  "evaluateStrategy (flat_candles [1, 2, 3, 4, 5]) (example_config 3 5 (Finite 1000) (Finite 2)) =
   Inr \<lparr>action = Buy, reason = ContinuationAbove, latestPrice = Finite 5,
         positionSize = Finite 4, stopLoss = Some (js_literal (99 / 100)),
         takeProfit = Some (js_literal (515 / 100)),
         fastMA = [None, None, Some (Finite 2), Some (Finite 3), Some (Finite 4)],
         slowMA = [None, None, None, None, Some (Finite 3)]\<rparr>"
  by code_simp

theorem order_is_positive_witness:
  "flat_candles [1, 2, 3, 4, 5] \<noteq> [] \<and>
   0 < fastLength (example_config 3 5 (Finite 1000) (Finite 2)) \<and>
   0 < slowLength (example_config 3 5 (Finite 1000) (Finite 2)) \<and>
   Number_isFinite (capital (example_config 3 5 (Finite 1000) (Finite 2))) \<and>
   riskPercent (example_config 3 5 (Finite 1000) (Finite 2)) \<noteq> NaN \<and>
   (\<exists>r ord. evaluateStrategy (flat_candles [1, 2, 3, 4, 5]) (example_config 3 5 (Finite 1000) (Finite 2)) = Inr r \<and>
      js_gt (positionSize r) (Finite 0) \<and> js_gt (close (last (flat_candles [1, 2, 3, 4, 5]))) (Finite 0) \<and>
      buildOrder r = Some ord \<and> js_gt (order_size ord) (Finite 0) \<and> js_gt (price ord) (Finite 0) \<and>
      side ord = Buy)"
proof -
  let ?cs = "flat_candles [1, 2, 3, 4, 5]"
  let ?cfg = "example_config 3 5 (Finite 1000) (Finite 2)"
  have h: "?cs \<noteq> [] \<and> 0 < fastLength ?cfg \<and> 0 < slowLength ?cfg"
    by (simp add: flat_candles_def example_config_def)
  note c = example_capital_finite
  from order_is_positive [of ?cs ?cfg] h c
  obtain r where r: "evaluateStrategy ?cs ?cfg = Inr r"
    and one: "js_gt (positionSize r) (Finite 0) \<longrightarrow> js_gt (close (last ?cs)) (Finite 0)"
    and two: "\<forall>ord. buildOrder r = Some ord \<longrightarrow>
           js_gt (order_size ord) (Finite 0) \<and> js_gt (price ord) (Finite 0) \<and>
           (side ord = Buy \<or> side ord = Sell)"
    by blast
  from r have val: "r = \<lparr>action = Buy, reason = ContinuationAbove, latestPrice = Finite 5,
         positionSize = Finite 4, stopLoss = Some (js_literal (99 / 100)),
         takeProfit = Some (js_literal (515 / 100)),
         fastMA = [None, None, Some (Finite 2), Some (Finite 3), Some (Finite 4)],
         slowMA = [None, None, None, None, Some (Finite 3)]\<rparr>"
    unfolding rising_eval by auto
  then have size: "js_gt (positionSize r) (Finite 0)"
    by (simp add: js_gt_def)
  from val obtain ord where ord: "buildOrder r = Some ord" and sd: "side ord = Buy"
    by (simp add: buildOrder_def)
  from two ord have "js_gt (order_size ord) (Finite 0) \<and> js_gt (price ord) (Finite 0)"
    by blast
  with r size one ord sd h c show ?thesis by blast
qed

end
